theory Spec2Isabelle
  imports Complex_Main "HOL-Library.Log_Nat"
begin

section \<open>Data model (types/index.ts, errors/AppError.ts)\<close>

text \<open>
  A TypeScript \<^verbatim>\<open>number\<close> is a binary64 value; the model carries the rational it
  denotes (NaN, the infinities and the sign of zero are not modelled). The credit
  calculator of CreditsService, whose results depend on the rounding of each operation, is
  modelled with the binary64 operations of the next section. The additions, subtractions
  and comparisons of balances and limits in the account and transfer services are read
  over the rationals. A \<^verbatim>\<open>Date\<close> is its epoch time in milliseconds. An optional or
  nullable field is an \<open>option\<close>. The \<^verbatim>\<open>email\<close> column of an account is left out:
  no function of the services reads or writes it.
\<close>

type_synonym number = rat
type_synonym date = int

datatype CreditType = QUICK | NORMAL

datatype CreditStatus =
  PREAPPROVED | APPROVED | DISBURSED | IN_PROGRESS | PAID | DEFAULT | CANCELED

datatype InstallmentStatus = PENDING | PAID_INSTALLMENT | UNPAID | RETRYING

datatype TransferStatus = TRANSFER_PENDIENTE | EN_PROCESO | ACREDITADA | FALLIDA

datatype KYCStatus = PENDIENTE | EN_REVISION | APROBADO | RECHAZADO

datatype tipo_documento = dni | selfie | comprobante_domicilio

text \<open>
  The error classes of AppError.ts, each with its message. Where the source interpolates
  a number or a caught error into a message, the model keeps the fixed part of the text.
\<close>

datatype error =
    ValidationError string
  | NotFoundError string
  | UnauthorizedError string
  | InsufficientFundsError string
  | DatabaseError string
  | Error string

record Credit =
  id_credito :: string
  usuario_id :: string
  tipo_credito :: CreditType
  monto_solicitado :: number
  monto_total :: number
  plazo_dias :: number
  tasa_tea :: number
  tasa_cft :: number
  estado :: CreditStatus
  fecha_desembolso :: "date option"
  fecha_vencimiento :: date
  cuotas :: number
  fecha_creacion :: date
  fecha_actualizacion :: date

record Installment =
  id_cuota :: string
  id_credito :: string
  nro_cuota :: int
  importe_cuota :: number
  fecha_vencimiento :: date
  estado :: InstallmentStatus
  fecha_pago :: "date option"

record UserAccount =
  usuario_id :: string
  password_hash :: "string option"
  kyc_completo :: bool
  kyc_status :: "KYCStatus option"
  fecha_registro :: date
  saldo_disponible :: number
  ingresos_declarados :: "number option"
  historial_mora :: bool
  score_externo :: "number option"
  bloqueado :: bool
  intentos_fallidos :: int
  fecha_proximo_intento :: "date option"
  limite_transferencia :: "number option"
  fecha_actualizacion :: date

record InstallmentPlan =
  nro_cuota :: int
  importe :: number
  fecha_vencimiento :: date

record CreditCalculation =
  monto_faltante :: number
  tasa_tea :: number
  tasa_cft :: number
  monto_intereses :: number
  gastos_administrativos :: number
  monto_total :: number
  plan_cuotas :: "InstallmentPlan list"

record CreditEligibility =
  es_elegible :: bool
  razon_rechazo :: "string option"

record CreditRequest =
  usuario_id :: string
  tipo_credito :: CreditType
  monto_solicitado :: number
  plazo_dias :: number

record CreditSimulation =
  tipo_credito :: CreditType
  monto_solicitado :: number
  plazo_dias :: number
  cuotas_totales :: number
  tasa_tea :: number
  tasa_cft :: number
  monto_total :: number
  costo_financiero :: number
  plan_cuotas :: "InstallmentPlan list"

record BankingAPIResponse =
  exito :: bool
  transaccion_id :: "string option"
  monto :: number
  fecha :: date
  saldo_resultante :: number
  razon_fallo :: "string option"

record Transfer =
  id_transferencia :: string
  usuario_id_origen :: string
  monto :: number
  estado :: TransferStatus
  fecha_creacion :: date

record KYCDocument =
  id_documento :: string
  usuario_id :: string
  tipo_documento :: tipo_documento
  url_documento :: string
  fecha_carga :: date
  estado_validacion :: KYCStatus

record PasswordResetToken =
  token :: string
  usuario_id :: string
  fecha_creacion :: date
  fecha_vencimiento :: date
  utilizado :: bool
  fecha_utilizacion :: "date option"

section \<open>Binary64 arithmetic\<close>

text \<open>
  \<open>fl64 x\<close> is the binary64 number nearest to the rational \<open>x\<close>, ties going to the
  even significand: with \<open>e\<close> the exponent of \<open>x\<close> (the integer with
  \<open>2^e \<le> |x| < 2^(e+1)\<close>, and at least -1022, below which the numbers are subnormal)
  the binary64 numbers around \<open>x\<close> are the multiples of \<open>2^(e-52)\<close>. Overflow to
  infinity (above \<open>2^1024\<close>) is not modelled. A JavaScript operation on numbers is the
  exact operation followed by this rounding; a decimal literal such as \<^verbatim>\<open>1.15\<close> is the
  rounding of its value. \<^verbatim>\<open>Math.round\<close>, \<^verbatim>\<open>Math.floor\<close> and \<^verbatim>\<open>Math.ceil\<close> are
  exact on a binary64 number: they are \<open>round\<close> (halves go up), \<open>floor\<close> and
  \<open>ceiling\<close>.
\<close>

definition roundTiesToEven :: "rat \<Rightarrow> int" where
  "roundTiesToEven y =
     (let f = \<lfloor>y\<rfloor>; r = y - of_int f
      in if r < 1 / 2 then f else if 1 / 2 < r then f + 1 else if even f then f else f + 1)"

definition exponent :: "rat \<Rightarrow> int" where
  "exponent x =
     (if 1 \<le> x then bitlen \<lfloor>x\<rfloor> - 1
      else (let k = bitlen \<lfloor>1 / x\<rfloor> in if 2 powi (1 - k) \<le> x then 1 - k else - k))"

definition fl64 :: "rat \<Rightarrow> rat" where
  "fl64 x =
     (if x = 0 then 0
      else (let e = max (exponent \<bar>x\<bar>) (- 1022);
                q = 2 powi (e - 52)
            in q * of_int (roundTiesToEven (x / q))))"

definition fadd :: "number \<Rightarrow> number \<Rightarrow> number" where
  "fadd x y = fl64 (x + y)"

definition fsub :: "number \<Rightarrow> number \<Rightarrow> number" where
  "fsub x y = fl64 (x - y)"

definition fmul :: "number \<Rightarrow> number \<Rightarrow> number" where
  "fmul x y = fl64 (x * y)"

definition fdiv :: "number \<Rightarrow> number \<Rightarrow> number" where
  "fdiv x y = fl64 (x / y)"

section \<open>The environment and the store\<close>

text \<open>
  What a call takes from the platform: the clock (\<^verbatim>\<open>new Date()\<close>,
  \<^verbatim>\<open>Date.now()\<close>), the calendar arithmetic of \<^verbatim>\<open>Date.setDate\<close> and
  \<^verbatim>\<open>Date.setMonth\<close>, the identifiers drawn from \<^verbatim>\<open>uuidv4()\<close> (the k-th one
  drawn during the call), and the PBKDF2 password hash with its comparison.
\<close>

record env =
  now :: date
  addDays :: "date \<Rightarrow> int \<Rightarrow> date"
  addMonths :: "date \<Rightarrow> int \<Rightarrow> date"
  uuidv4 :: "nat \<Rightarrow> string"
  hashPassword :: "string \<Rightarrow> string"
  verifyPassword :: "string \<Rightarrow> string \<Rightarrow> bool"

text \<open>
  The tables behind the repositories. A table with a primary key is a map from the key;
  the others are lists of rows. The store itself never fails in this model: the
  \<^verbatim>\<open>DatabaseError\<close> raised when a query reports an error is modelled only where the
  query is \<^verbatim>\<open>.single()\<close> on a row that does not exist.
\<close>

record db =
  user_accounts :: "string \<rightharpoonup> UserAccount"
  creditos :: "string \<rightharpoonup> Credit"
  cuotas_rows :: "Installment list"
  transferencias :: "Transfer list"
  kyc_documents :: "KYCDocument list"
  password_reset_tokens :: "string \<rightharpoonup> PasswordResetToken"

text \<open>
  An async method that reads or writes the store takes the store and returns its result,
  or the error it throws, with the store as it is at that moment: a write made before a
  throw stays made.
\<close>

type_synonym 'a res = "(error + 'a) \<times> db"

definition ret :: "'a \<Rightarrow> db \<Rightarrow> 'a res" where
  "ret x d = (Inr x, d)"

definition throw :: "error \<Rightarrow> db \<Rightarrow> 'a res" where
  "throw e d = (Inl e, d)"

definition bind :: "(db \<Rightarrow> 'a res) \<Rightarrow> ('a \<Rightarrow> db \<Rightarrow> 'b res) \<Rightarrow> db \<Rightarrow> 'b res" where
  "bind m f d = (case m d of (Inl e, d') \<Rightarrow> (Inl e, d') | (Inr x, d') \<Rightarrow> f x d')"

section \<open>CreditsService: rates, amortization, simulation\<close>

definition quickCreditRates :: "(number \<times> number) list" where
  "quickCreditRates = [(30, 110), (60, 115), (90, 120)]"

definition normalCreditRates :: "(number \<times> number) list" where
  "normalCreditRates = [(3, 85), (6, 90), (12, 95)]"

definition adminChargePercentage :: number where
  "adminChargePercentage = 2"

definition cftMultiplier :: number where
  "cftMultiplier = fl64 (115 / 100)"

datatype calc_type = quick | normal

text \<open>One row of the plan, as the body of the loop of \<^verbatim>\<open>calculateCredit\<close> pushes it.\<close>

definition plan_row :: "env \<Rightarrow> number \<Rightarrow> number \<Rightarrow> int \<Rightarrow> date \<Rightarrow> int \<Rightarrow> int \<Rightarrow> InstallmentPlan" where
  "plan_row e totalAmount installmentAmount numInstallments startDate daysBetweenPayments i =
     \<lparr> InstallmentPlan.nro_cuota = i,
       importe = (if i = numInstallments
                  then fsub totalAmount (fmul installmentAmount (of_int (numInstallments - 1)))
                  else installmentAmount),
       fecha_vencimiento = addDays e startDate (i * daysBetweenPayments) \<rparr>"

text \<open>The loop \<^verbatim>\<open>for (let i = 1; i <= numInstallments; i++) plan.push(...)\<close>.\<close>

function plan_loop ::
  "env \<Rightarrow> number \<Rightarrow> number \<Rightarrow> int \<Rightarrow> date \<Rightarrow> int \<Rightarrow> int \<Rightarrow> InstallmentPlan list \<Rightarrow> InstallmentPlan list" where
  "plan_loop e totalAmount installmentAmount numInstallments startDate daysBetweenPayments i plan =
     (if i \<le> numInstallments
      then plan_loop e totalAmount installmentAmount numInstallments startDate daysBetweenPayments (i + 1)
             (plan @ [plan_row e totalAmount installmentAmount numInstallments startDate daysBetweenPayments i])
      else plan)"
  by pat_completeness auto
termination
  by (relation "measure (\<lambda>(e, t, a, n, s, d, i, p). nat (n + 1 - i))") auto

declare plan_loop.simps [simp del]

definition calculateCredit ::
  "env \<Rightarrow> number \<Rightarrow> number \<Rightarrow> number \<Rightarrow> number \<Rightarrow> calc_type \<Rightarrow> CreditCalculation" where
  "calculateCredit e principal' tea cft termDays type =
     (let yearFraction = fdiv termDays 365;
          interestRate = fdiv tea 100;
          interest = fmul (fmul principal' interestRate) yearFraction;
          adminCharges = fmul principal' (fdiv adminChargePercentage 100);
          totalAmount = fadd (fadd principal' interest) adminCharges;
          numInstallments = (if type = quick then \<lceil>fdiv termDays 30\<rceil>
                             else \<lfloor>fdiv termDays 30\<rfloor>);
          installmentAmount = fdiv totalAmount (of_int numInstallments);
          startDate = now e;
          daysBetweenPayments = (if type = quick then 30 else 30);
          plan = plan_loop e totalAmount installmentAmount numInstallments startDate
                   daysBetweenPayments 1 []
      in \<lparr> monto_faltante = principal',
           tasa_tea = tea,
           tasa_cft = cft,
           monto_intereses = of_int (round interest),
           gastos_administrativos = of_int (round adminCharges),
           monto_total = of_int (round totalAmount),
           plan_cuotas = plan \<rparr>)"

definition simulateQuickCredit :: "env \<Rightarrow> string \<Rightarrow> number \<Rightarrow> number \<Rightarrow> error + CreditSimulation" where
  "simulateQuickCredit e userId missingAmount termDays =
     (case map_of quickCreditRates termDays of
        None \<Rightarrow> Inl (ValidationError ''Invalid term for quick credit. Allowed: 30, 60, 90 days'')
      | Some tea \<Rightarrow>
          (let cft = of_int (round (fmul tea cftMultiplier));
               calculation = calculateCredit e missingAmount tea cft termDays quick
           in Inr \<lparr> CreditSimulation.tipo_credito = QUICK,
                    monto_solicitado = missingAmount,
                    plazo_dias = termDays,
                    cuotas_totales = of_nat (length (CreditCalculation.plan_cuotas calculation)),
                    tasa_tea = tea,
                    tasa_cft = cft,
                    monto_total = CreditCalculation.monto_total calculation,
                    costo_financiero = fadd (monto_intereses calculation)
                                         (gastos_administrativos calculation),
                    plan_cuotas = CreditCalculation.plan_cuotas calculation \<rparr>))"

definition simulateNormalCredit :: "env \<Rightarrow> string \<Rightarrow> number \<Rightarrow> number \<Rightarrow> error + CreditSimulation" where
  "simulateNormalCredit e userId amount termMonths =
     (case map_of normalCreditRates termMonths of
        None \<Rightarrow> Inl (ValidationError ''Invalid term for normal credit. Allowed: 3, 6, 9, 12 months'')
      | Some tea \<Rightarrow>
          (let cft = of_int (round (fmul tea cftMultiplier));
               termDays = fmul termMonths 30;
               calculation = calculateCredit e amount tea cft termDays normal
           in Inr \<lparr> CreditSimulation.tipo_credito = NORMAL,
                    monto_solicitado = amount,
                    plazo_dias = termDays,
                    cuotas_totales = termMonths,
                    tasa_tea = tea,
                    tasa_cft = cft,
                    monto_total = CreditCalculation.monto_total calculation,
                    costo_financiero = fadd (monto_intereses calculation)
                                         (gastos_administrativos calculation),
                    plan_cuotas = CreditCalculation.plan_cuotas calculation \<rparr>))"

section \<open>CreditsValidator.validateTerm\<close>

definition validateTerm :: "number \<Rightarrow> CreditType \<Rightarrow> CreditEligibility" where
  "validateTerm termValue creditType =
     (if creditType = QUICK
      then (if termValue \<notin> set [30, 60, 90]
            then \<lparr> es_elegible = False,
                   razon_rechazo = Some ''Quick credit terms must be 30, 60, or 90 days'' \<rparr>
            else \<lparr> es_elegible = True, razon_rechazo = None \<rparr>)
      else (if termValue \<notin> set [3, 6, 9, 12]
            then \<lparr> es_elegible = False,
                   razon_rechazo = Some ''Normal credit terms must be 3, 6, 9, or 12 months'' \<rparr>
            else \<lparr> es_elegible = True, razon_rechazo = None \<rparr>))"

section \<open>UserAccountsRepository\<close>

text \<open>
  A \<^verbatim>\<open>Partial<UserAccount>\<close> handed to \<^verbatim>\<open>update\<close> is modelled as the function
  that overrides the fields it names. A key whose value is \<^verbatim>\<open>undefined\<close> (as
  \<^verbatim>\<open>fecha_proximo_intento: undefined\<close> in \<^verbatim>\<open>resetFailedLoginAttempts\<close> and
  \<^verbatim>\<open>unblockAccount\<close>) is dropped when the update is serialised to JSON, so it
  overrides nothing. \<^verbatim>\<open>update\<close> ends in \<^verbatim>\<open>.single()\<close>: with no row for the user
  the query reports an error, which the catch block wraps into a DatabaseError.
\<close>

definition findByUserId :: "string \<Rightarrow> db \<Rightarrow> UserAccount option res" where
  "findByUserId userId d = (Inr (user_accounts d userId), d)"

definition update :: "env \<Rightarrow> string \<Rightarrow> (UserAccount \<Rightarrow> UserAccount) \<Rightarrow> db \<Rightarrow> UserAccount res" where
  "update e userId updates d =
     (case user_accounts d userId of
        None \<Rightarrow> (Inl (DatabaseError ''Failed to update user account''), d)
      | Some row \<Rightarrow>
          (let data = (updates row)\<lparr> UserAccount.fecha_actualizacion := now e \<rparr>
           in (Inr data, d\<lparr> user_accounts := (user_accounts d)(userId \<mapsto> data) \<rparr>)))"

definition account_not_found :: "string \<Rightarrow> error" where
  "account_not_found userId = NotFoundError (''User account '' @ userId @ '' not found'')"

definition updateBalance :: "env \<Rightarrow> string \<Rightarrow> number \<Rightarrow> db \<Rightarrow> UserAccount res" where
  "updateBalance e userId newBalance =
     update e userId (\<lambda>a. a\<lparr> saldo_disponible := newBalance \<rparr>)"

definition UserAccountsRepository_getBalance :: "string \<Rightarrow> db \<Rightarrow> number res" where
  "UserAccountsRepository_getBalance userId =
     bind (findByUserId userId) (\<lambda>account.
       case account of
         None \<Rightarrow> throw (account_not_found userId)
       | Some account \<Rightarrow> ret (saldo_disponible account))"

definition UserAccountsRepository_updatePassword :: "env \<Rightarrow> string \<Rightarrow> string \<Rightarrow> db \<Rightarrow> UserAccount res" where
  "UserAccountsRepository_updatePassword e userId passwordHash =
     update e userId (\<lambda>a. a\<lparr> password_hash := Some passwordHash \<rparr>)"

definition getPasswordHash :: "string \<Rightarrow> db \<Rightarrow> string option res" where
  "getPasswordHash userId =
     bind (findByUserId userId) (\<lambda>account.
       case account of
         None \<Rightarrow> throw (account_not_found userId)
       | Some account \<Rightarrow>
           ret (case password_hash account of
                  None \<Rightarrow> None
                | Some h \<Rightarrow> if h = [] then None else Some h))"

definition recordFailedLoginAttempt :: "env \<Rightarrow> string \<Rightarrow> db \<Rightarrow> UserAccount res" where
  "recordFailedLoginAttempt e userId =
     bind (findByUserId userId) (\<lambda>account.
       case account of
         None \<Rightarrow> throw (account_not_found userId)
       | Some account \<Rightarrow>
           (let newAttempts = intentos_fallidos account + 1;
                shouldBlock = (newAttempts \<ge> 5)
            in update e userId (\<lambda>a.
                 if shouldBlock
                 then a\<lparr> intentos_fallidos := newAttempts,
                         bloqueado := True,
                         fecha_proximo_intento := Some (now e + 60 * 60 * 1000) \<rparr>
                 else a\<lparr> intentos_fallidos := newAttempts \<rparr>)))"

definition resetFailedLoginAttempts :: "env \<Rightarrow> string \<Rightarrow> db \<Rightarrow> UserAccount res" where
  "resetFailedLoginAttempts e userId =
     update e userId (\<lambda>a. a\<lparr> intentos_fallidos := 0 \<rparr>)"

definition UserAccountsRepository_blockAccount :: "env \<Rightarrow> string \<Rightarrow> db \<Rightarrow> UserAccount res" where
  "UserAccountsRepository_blockAccount e userId =
     update e userId (\<lambda>a. a\<lparr> bloqueado := True \<rparr>)"

definition UserAccountsRepository_unblockAccount :: "env \<Rightarrow> string \<Rightarrow> db \<Rightarrow> UserAccount res" where
  "UserAccountsRepository_unblockAccount e userId =
     update e userId (\<lambda>a. a\<lparr> bloqueado := False, intentos_fallidos := 0 \<rparr>)"

definition UserAccountsRepository_isAccountBlocked :: "env \<Rightarrow> string \<Rightarrow> db \<Rightarrow> bool res" where
  "UserAccountsRepository_isAccountBlocked e userId =
     bind (findByUserId userId) (\<lambda>account.
       case account of
         None \<Rightarrow> throw (account_not_found userId)
       | Some account \<Rightarrow>
           if \<not> bloqueado account then ret False
           else if (case fecha_proximo_intento account of
                      None \<Rightarrow> False
                    | Some t \<Rightarrow> t \<le> now e)
           then bind (UserAccountsRepository_unblockAccount e userId) (\<lambda>_. ret False)
           else ret (bloqueado account))"

text \<open>
  The rows come back ordered by \<^verbatim>\<open>fecha_carga\<close>, newest first (the order among rows
  of equal \<^verbatim>\<open>fecha_carga\<close> is the store's; here it is the one of the stable sort).
\<close>

definition UserAccountsRepository_getKYCDocuments :: "string \<Rightarrow> db \<Rightarrow> KYCDocument list res" where
  "UserAccountsRepository_getKYCDocuments userId d =
     (Inr (rev (sort_key fecha_carga
              (filter (\<lambda>k. KYCDocument.usuario_id k = userId) (kyc_documents d)))), d)"

definition updateKYCStatus :: "env \<Rightarrow> string \<Rightarrow> KYCStatus \<Rightarrow> string option \<Rightarrow> db \<Rightarrow> UserAccount res" where
  "updateKYCStatus e userId status razonRechazo =
     update e userId (\<lambda>a.
       if status = APROBADO
       then a\<lparr> kyc_status := Some status, kyc_completo := True, limite_transferencia := Some 50000 \<rparr>
       else if status = RECHAZADO
       then a\<lparr> kyc_status := Some status, kyc_completo := False \<rparr>
       else a\<lparr> kyc_status := Some status \<rparr>)"

definition validatePasswordResetToken :: "env \<Rightarrow> string \<Rightarrow> db \<Rightarrow> bool res" where
  "validatePasswordResetToken e tok d =
     (case password_reset_tokens d tok of
        None \<Rightarrow> (Inr False, d)
      | Some data \<Rightarrow>
          if utilizado data then (Inr False, d)
          else (Inr (PasswordResetToken.fecha_vencimiento data > now e), d))"

definition markResetTokenAsUsed :: "env \<Rightarrow> string \<Rightarrow> db \<Rightarrow> unit res" where
  "markResetTokenAsUsed e tok d =
     (case password_reset_tokens d tok of
        None \<Rightarrow> (Inr (), d)
      | Some row \<Rightarrow>
          (Inr (), d\<lparr> password_reset_tokens := (password_reset_tokens d)
                       (tok \<mapsto> row\<lparr> utilizado := True, fecha_utilizacion := Some (now e) \<rparr>) \<rparr>))"

definition getUserIdFromResetToken :: "string \<Rightarrow> db \<Rightarrow> string res" where
  "getUserIdFromResetToken tok d =
     (case password_reset_tokens d tok of
        None \<Rightarrow> (Inl (NotFoundError ''Invalid or expired reset token''), d)
      | Some data \<Rightarrow>
          if utilizado data then (Inl (NotFoundError ''Invalid or expired reset token''), d)
          else (Inr (PasswordResetToken.usuario_id data), d))"

definition UserAccountsRepository_updateTransferLimit :: "env \<Rightarrow> string \<Rightarrow> number \<Rightarrow> db \<Rightarrow> UserAccount res" where
  "UserAccountsRepository_updateTransferLimit e userId limite =
     (if limite \<le> 0 then throw (DatabaseError ''Failed to update transfer limit'')
      else update e userId (\<lambda>a. a\<lparr> limite_transferencia := Some limite \<rparr>))"

section \<open>CreditsRepository and TransfersRepository\<close>

text \<open>
  \<^verbatim>\<open>createCredit\<close> takes the credit without its identifier and its two timestamps and
  sets them itself; the model takes a whole record and overrides the three fields.
\<close>

definition createCredit :: "env \<Rightarrow> Credit \<Rightarrow> db \<Rightarrow> Credit res" where
  "createCredit e credit d =
     (let creditData = credit\<lparr> Credit.id_credito := uuidv4 e 0,
                               Credit.fecha_creacion := now e,
                               Credit.fecha_actualizacion := now e \<rparr>
      in (Inr creditData, d\<lparr> creditos := (creditos d)(Credit.id_credito creditData \<mapsto> creditData) \<rparr>))"

definition findCreditById :: "string \<Rightarrow> db \<Rightarrow> Credit option res" where
  "findCreditById creditId d = (Inr (creditos d creditId), d)"

definition updateCredit :: "env \<Rightarrow> string \<Rightarrow> (Credit \<Rightarrow> Credit) \<Rightarrow> db \<Rightarrow> Credit res" where
  "updateCredit e creditId updates d =
     (case creditos d creditId of
        None \<Rightarrow> (Inl (DatabaseError ''Failed to update credit''), d)
      | Some row \<Rightarrow>
          (let data = (updates row)\<lparr> Credit.fecha_actualizacion := now e \<rparr>
           in (Inr data, d\<lparr> creditos := (creditos d)(creditId \<mapsto> data) \<rparr>)))"

definition createInstallmentPlan :: "env \<Rightarrow> string \<Rightarrow> Installment list \<Rightarrow> db \<Rightarrow> Installment list res" where
  "createInstallmentPlan e creditId installments d =
     (let installmentData =
            map (\<lambda>(k, inst). inst\<lparr> id_cuota := uuidv4 e (Suc k) \<rparr>) (enumerate 0 installments)
      in (Inr installmentData, d\<lparr> cuotas_rows := cuotas_rows d @ installmentData \<rparr>))"

definition ms_per_day :: int where
  "ms_per_day = 24 * 60 * 60 * 1000"

definition getTransfersByUserIdAndDate :: "string \<Rightarrow> date \<Rightarrow> db \<Rightarrow> Transfer list res" where
  "getTransfersByUserIdAndDate userId dt d =
     (let startOfDay = dt - dt mod ms_per_day;
          endOfDay = startOfDay + (ms_per_day - 1)
      in (Inr (filter (\<lambda>t. usuario_id_origen t = userId
                           \<and> startOfDay \<le> Transfer.fecha_creacion t
                           \<and> Transfer.fecha_creacion t \<le> endOfDay) (transferencias d)), d))"

section \<open>UserAccountsService\<close>

definition getUserAccount :: "string \<Rightarrow> db \<Rightarrow> UserAccount res" where
  "getUserAccount userId =
     bind (findByUserId userId) (\<lambda>account.
       case account of
         None \<Rightarrow> throw (account_not_found userId)
       | Some account \<Rightarrow> ret account)"

definition updateAccountBalance :: "env \<Rightarrow> string \<Rightarrow> number \<Rightarrow> db \<Rightarrow> UserAccount res" where
  "updateAccountBalance e userId amount =
     bind (getUserAccount userId) (\<lambda>account.
       if amount < 0 then throw (ValidationError ''Balance amount cannot be negative'')
       else updateBalance e userId amount)"

definition addFunds :: "env \<Rightarrow> string \<Rightarrow> number \<Rightarrow> db \<Rightarrow> UserAccount res" where
  "addFunds e userId amount =
     bind (getUserAccount userId) (\<lambda>account.
       if amount \<le> 0 then throw (ValidationError ''Amount to add must be greater than 0'')
       else (let newBalance = saldo_disponible account + amount
             in updateBalance e userId newBalance))"

definition removeFunds :: "env \<Rightarrow> string \<Rightarrow> number \<Rightarrow> db \<Rightarrow> UserAccount res" where
  "removeFunds e userId amount =
     bind (getUserAccount userId) (\<lambda>account.
       if amount \<le> 0 then throw (ValidationError ''Amount to remove must be greater than 0'')
       else if saldo_disponible account < amount then throw (ValidationError ''Insufficient balance'')
       else (let newBalance = saldo_disponible account - amount
             in updateBalance e userId newBalance))"

definition getBalance :: "string \<Rightarrow> db \<Rightarrow> number res" where
  "getBalance userId = UserAccountsRepository_getBalance userId"

definition validateCredentials :: "env \<Rightarrow> string \<Rightarrow> string \<Rightarrow> db \<Rightarrow> bool res" where
  "validateCredentials e userId password =
     bind (UserAccountsRepository_isAccountBlocked e userId) (\<lambda>isBlocked.
       if isBlocked then throw (ValidationError ''Account is temporarily locked. Try again later.'')
       else bind (getPasswordHash userId) (\<lambda>passwordHash.
         case passwordHash of
           None \<Rightarrow> throw (NotFoundError ''Password not found for user'')
         | Some passwordHash \<Rightarrow>
             (let isValid = verifyPassword e password passwordHash
              in if \<not> isValid
                 then bind (recordFailedLoginAttempt e userId) (\<lambda>_.
                        throw (UnauthorizedError ''Invalid credentials''))
                 else bind (resetFailedLoginAttempts e userId) (\<lambda>_. ret True))))"

text \<open>
  \<^verbatim>\<open>newPassword.length\<close> counts UTF-16 code units and \<open>length\<close> counts the
  characters of the model's string: the two agree on ASCII passwords.
\<close>

definition updatePasswordWithResetToken :: "env \<Rightarrow> string \<Rightarrow> string \<Rightarrow> db \<Rightarrow> UserAccount res" where
  "updatePasswordWithResetToken e tok newPassword =
     (if newPassword = [] \<or> length newPassword < 8
      then throw (ValidationError ''Password must be at least 8 characters long'')
      else bind (validatePasswordResetToken e tok) (\<lambda>isValidToken.
        if \<not> isValidToken
        then throw (ValidationError ''Invalid or expired password reset token'')
        else bind (getUserIdFromResetToken tok) (\<lambda>userId.
          (let passwordHash = hashPassword e newPassword
           in bind (markResetTokenAsUsed e tok) (\<lambda>_.
                UserAccountsRepository_updatePassword e userId passwordHash)))))"

definition isAccountBlocked :: "env \<Rightarrow> string \<Rightarrow> db \<Rightarrow> bool res" where
  "isAccountBlocked e userId = UserAccountsRepository_isAccountBlocked e userId"

definition getKYCDocuments :: "string \<Rightarrow> db \<Rightarrow> KYCDocument list res" where
  "getKYCDocuments userId =
     bind (getUserAccount userId) (\<lambda>_. UserAccountsRepository_getKYCDocuments userId)"

definition approveKYC :: "env \<Rightarrow> string \<Rightarrow> db \<Rightarrow> UserAccount res" where
  "approveKYC e userId =
     bind (getKYCDocuments userId) (\<lambda>documentos.
       (let hasDNI = list_ex (\<lambda>d. KYCDocument.tipo_documento d = dni) documentos;
            hasSelfie = list_ex (\<lambda>d. KYCDocument.tipo_documento d = selfie) documentos
        in if \<not> hasDNI \<or> \<not> hasSelfie
           then throw (ValidationError ''User must upload DNI and selfie photos for KYC approval'')
           else bind (updateKYCStatus e userId APROBADO None) (\<lambda>account.
                  bind (UserAccountsRepository_updateTransferLimit e userId 50000) (\<lambda>_.
                    ret account))))"

section \<open>CreditsService: creation and disbursement\<close>

definition installment_of_plan :: "string \<Rightarrow> InstallmentPlan \<Rightarrow> Installment" where
  "installment_of_plan creditId plan =
     \<lparr> id_cuota = [],
       id_credito = creditId,
       nro_cuota = InstallmentPlan.nro_cuota plan,
       importe_cuota = importe plan,
       fecha_vencimiento = InstallmentPlan.fecha_vencimiento plan,
       estado = PENDING,
       fecha_pago = None \<rparr>"

definition createQuickCredit :: "env \<Rightarrow> CreditRequest \<Rightarrow> db \<Rightarrow> Credit res" where
  "createQuickCredit e request =
     (if CreditRequest.tipo_credito request \<noteq> QUICK
      then throw (ValidationError ''Invalid credit type for quick credit creation'')
      else case simulateQuickCredit e (CreditRequest.usuario_id request)
                  (CreditRequest.monto_solicitado request) (CreditRequest.plazo_dias request) of
             Inl err \<Rightarrow> throw err
           | Inr simulation \<Rightarrow>
               (let vencimientoDate = addDays e (now e) \<lfloor>CreditRequest.plazo_dias request\<rfloor>
                in bind (createCredit e
                     \<lparr> Credit.id_credito = [],
                       usuario_id = CreditRequest.usuario_id request,
                       tipo_credito = QUICK,
                       monto_solicitado = CreditRequest.monto_solicitado request,
                       monto_total = CreditSimulation.monto_total simulation,
                       plazo_dias = CreditRequest.plazo_dias request,
                       tasa_tea = CreditSimulation.tasa_tea simulation,
                       tasa_cft = CreditSimulation.tasa_cft simulation,
                       estado = PREAPPROVED,
                       fecha_desembolso = None,
                       fecha_vencimiento = vencimientoDate,
                       cuotas = cuotas_totales simulation,
                       fecha_creacion = 0,
                       fecha_actualizacion = 0 \<rparr>) (\<lambda>credit.
                     (let installmentData =
                            map (installment_of_plan (Credit.id_credito credit))
                              (CreditSimulation.plan_cuotas simulation)
                      in bind (createInstallmentPlan e (Credit.id_credito credit) installmentData)
                           (\<lambda>_. ret credit)))))"

definition createNormalCredit :: "env \<Rightarrow> CreditRequest \<Rightarrow> db \<Rightarrow> Credit res" where
  "createNormalCredit e request =
     (if CreditRequest.tipo_credito request \<noteq> NORMAL
      then throw (ValidationError ''Invalid credit type for normal credit creation'')
      else (let termMonths = \<lfloor>fdiv (CreditRequest.plazo_dias request) 30\<rfloor>
            in if termMonths \<notin> set [3, 6, 9, 12]
               then throw (ValidationError ''Invalid term for normal credit. Allowed: 3, 6, 9, 12 months'')
               else case simulateNormalCredit e (CreditRequest.usuario_id request)
                           (CreditRequest.monto_solicitado request) (of_int termMonths) of
                      Inl err \<Rightarrow> throw err
                    | Inr simulation \<Rightarrow>
                        (let vencimientoDate = addMonths e (now e) termMonths
                         in bind (createCredit e
                              \<lparr> Credit.id_credito = [],
                                usuario_id = CreditRequest.usuario_id request,
                                tipo_credito = NORMAL,
                                monto_solicitado = CreditRequest.monto_solicitado request,
                                monto_total = CreditSimulation.monto_total simulation,
                                plazo_dias = CreditRequest.plazo_dias request,
                                tasa_tea = CreditSimulation.tasa_tea simulation,
                                tasa_cft = CreditSimulation.tasa_cft simulation,
                                estado = PREAPPROVED,
                                fecha_desembolso = None,
                                fecha_vencimiento = vencimientoDate,
                                cuotas = cuotas_totales simulation,
                                fecha_creacion = 0,
                                fecha_actualizacion = 0 \<rparr>) (\<lambda>credit.
                              (let installmentData =
                                     map (installment_of_plan (Credit.id_credito credit))
                                       (CreditSimulation.plan_cuotas simulation)
                               in bind (createInstallmentPlan e (Credit.id_credito credit) installmentData)
                                    (\<lambda>_. ret credit))))))"

definition approveCreditAndDisburse :: "env \<Rightarrow> string \<Rightarrow> db \<Rightarrow> Credit res" where
  "approveCreditAndDisburse e creditId =
     bind (findCreditById creditId) (\<lambda>credit.
       case credit of
         None \<Rightarrow> throw (ValidationError (''Credit '' @ creditId @ '' not found''))
       | Some credit \<Rightarrow>
           bind (UserAccountsRepository_getBalance (Credit.usuario_id credit)) (\<lambda>userBalance.
             if userBalance < Credit.monto_solicitado credit
             then throw (InsufficientFundsError ''Insufficient funds to disburse credit'')
             else (let newBalance = userBalance - Credit.monto_solicitado credit
                   in bind (updateBalance e (Credit.usuario_id credit) newBalance) (\<lambda>_.
                        updateCredit e creditId (\<lambda>c.
                          c\<lparr> Credit.estado := IN_PROGRESS,
                             fecha_desembolso := Some (now e) \<rparr>)))))"

section \<open>BankingAPI.transferFunds and TransfersService\<close>

text \<open>
  The body of \<^verbatim>\<open>transferFunds\<close> runs inside try/catch: \<open>transferFunds_try\<close> is
  the try block, and whatever it throws becomes a failed response, with the store as it
  is at the throw.
\<close>

definition transferFunds_try :: "env \<Rightarrow> string \<Rightarrow> string \<Rightarrow> number \<Rightarrow> db \<Rightarrow> BankingAPIResponse res" where
  "transferFunds_try e fromUserId toUserId amount =
     bind (getBalance fromUserId) (\<lambda>senderBalance.
       if senderBalance < amount
       then ret \<lparr> exito = False, transaccion_id = None, monto = amount, fecha = now e,
                  saldo_resultante = senderBalance,
                  razon_fallo = Some ''Sender has insufficient balance'' \<rparr>
       else bind (removeFunds e fromUserId amount) (\<lambda>senderUpdated.
              bind (addFunds e toUserId amount) (\<lambda>recipientUpdated.
                ret \<lparr> exito = True, transaccion_id = Some (uuidv4 e 0), monto = amount,
                      fecha = now e,
                      saldo_resultante = saldo_disponible senderUpdated,
                      razon_fallo = None \<rparr>)))"

definition transferFunds :: "env \<Rightarrow> string \<Rightarrow> string \<Rightarrow> number \<Rightarrow> db \<Rightarrow> BankingAPIResponse res" where
  "transferFunds e fromUserId toUserId amount d =
     (case transferFunds_try e fromUserId toUserId amount d of
        (Inl err, d') \<Rightarrow>
          (Inr \<lparr> exito = False, transaccion_id = None, monto = amount, fecha = now e,
                 saldo_resultante = 0, razon_fallo = Some ''Transfer failed'' \<rparr>, d')
      | (Inr response, d') \<Rightarrow> (Inr response, d'))"

definition getDailyTransferTotal :: "env \<Rightarrow> string \<Rightarrow> db \<Rightarrow> number res" where
  "getDailyTransferTotal e usuarioId =
     bind (getTransfersByUserIdAndDate usuarioId (now e)) (\<lambda>transfers.
       ret (foldl (\<lambda>sum transfer. sum + Transfer.monto transfer) 0
              (filter (\<lambda>transfer. Transfer.estado transfer = ACREDITADA) transfers)))"

definition getDailyTransferCount :: "env \<Rightarrow> string \<Rightarrow> db \<Rightarrow> nat res" where
  "getDailyTransferCount e usuarioId =
     bind (getTransfersByUserIdAndDate usuarioId (now e)) (\<lambda>transfers.
       ret (length (filter (\<lambda>transfer. Transfer.estado transfer = ACREDITADA) transfers)))"

section \<open>TransferHandler\<close>

text \<open>
  A handler reads the fields of \<^verbatim>\<open>req.body\<close>, each of which may be missing, and
  either answers with \<^verbatim>\<open>res.json\<close> (the right summand) or hands an error to
  \<^verbatim>\<open>next\<close> (the left one). \<^verbatim>\<open>!x\<close> holds of a missing field, of the empty string
  and of the number 0. The constant fields \<^verbatim>\<open>mensaje\<close>, \<^verbatim>\<open>error\<close> and
  \<^verbatim>\<open>descripcion\<close> of the answers are left out.
\<close>

definition falsy_string :: "string option \<Rightarrow> bool" where
  "falsy_string x = (case x of None \<Rightarrow> True | Some s \<Rightarrow> s = [])"

definition falsy_number :: "number option \<Rightarrow> bool" where
  "falsy_number x = (case x of None \<Rightarrow> True | Some n \<Rightarrow> n = 0)"

record TransferBody =
  usuario_id :: "string option"
  monto_destino :: "number option"
  cuenta_destino :: "string option"

record TransferJson =
  exito :: bool
  tipo_resultado :: string
  transaccion_id :: "string option"
  monto :: "number option"
  saldo_resultante :: "number option"
  fecha :: "date option"
  saldo_actual :: "number option"
  monto_faltante :: "number option"
  oferta_credito :: "CreditSimulation option"

definition handleTransfer :: "env \<Rightarrow> TransferBody \<Rightarrow> db \<Rightarrow> TransferJson res" where
  "handleTransfer e body =
     (if falsy_string (TransferBody.usuario_id body) \<or> falsy_number (monto_destino body)
         \<or> falsy_string (cuenta_destino body)
      then throw (ValidationError ''Missing required fields: usuario_id, monto_destino, cuenta_destino'')
      else (let usuario_id = the (TransferBody.usuario_id body);
                monto_destino = the (monto_destino body);
                cuenta_destino = the (cuenta_destino body)
            in if monto_destino \<le> 0
               then throw (ValidationError ''Transfer amount must be greater than 0'')
               else bind (getBalance usuario_id) (\<lambda>currentBalance.
                 if currentBalance \<ge> monto_destino
                 then bind (transferFunds e usuario_id cuenta_destino monto_destino) (\<lambda>result.
                        if BankingAPIResponse.exito result
                        then ret \<lparr> exito = True,
                                   tipo_resultado = ''transferencia_directa'',
                                   transaccion_id = BankingAPIResponse.transaccion_id result,
                                   monto = Some monto_destino,
                                   saldo_resultante = Some (BankingAPIResponse.saldo_resultante result),
                                   fecha = Some (BankingAPIResponse.fecha result),
                                   saldo_actual = None,
                                   monto_faltante = None,
                                   oferta_credito = None \<rparr>
                        else throw (Error (case razon_fallo result of None \<Rightarrow> [] | Some r \<Rightarrow> r)))
                 else (let faltante = fsub monto_destino currentBalance
                       in case simulateQuickCredit e usuario_id faltante 30 of
                            Inl err \<Rightarrow> throw err
                          | Inr creditOffer \<Rightarrow>
                              ret \<lparr> exito = False,
                                    tipo_resultado = ''saldo_insuficiente_oferta_credito'',
                                    transaccion_id = None,
                                    monto = None,
                                    saldo_resultante = None,
                                    fecha = None,
                                    saldo_actual = Some currentBalance,
                                    monto_faltante = Some faltante,
                                    oferta_credito = Some creditOffer \<rparr>))))"

record LimitsBody =
  usuario_id :: "string option"
  monto_transferencia :: "number option"

record LimitsData =
  limite_actual :: number
  usado_hoy :: number
  disponible :: number
  monto_solicitado :: number
  exceso :: "number option"
  como_ampliar :: "string option"
  kyc_completo :: "bool option"

record LimitsJson =
  exito :: bool
  puede_transferir :: bool
  code :: "string option"
  data :: LimitsData

definition checkLimitsPreview :: "env \<Rightarrow> LimitsBody \<Rightarrow> db \<Rightarrow> LimitsJson res" where
  "checkLimitsPreview e body =
     (if falsy_string (LimitsBody.usuario_id body) \<or> falsy_number (monto_transferencia body)
      then throw (ValidationError ''Missing required fields: usuario_id, monto_transferencia'')
      else (let usuario_id = the (LimitsBody.usuario_id body);
                monto_transferencia = the (monto_transferencia body)
            in if monto_transferencia \<le> 0
               then throw (ValidationError ''Transfer amount must be greater than 0'')
               else bind (getUserAccount usuario_id) (\<lambda>account.
                 (let limite_actual = (if UserAccount.kyc_completo account then 50000 else 10000)
                  in bind (getDailyTransferTotal e usuario_id) (\<lambda>usedToday.
                       (let disponible = max 0 (limite_actual - usedToday)
                        in if monto_transferencia > disponible
                           then ret \<lparr> exito = False, puede_transferir = False,
                                      code = Some ''LIMITE_EXCEDIDO'',
                                      data = \<lparr> limite_actual = limite_actual,
                                               usado_hoy = usedToday,
                                               disponible = disponible,
                                               monto_solicitado = monto_transferencia,
                                               exceso = Some (monto_transferencia - disponible),
                                               como_ampliar = (if UserAccount.kyc_completo account then None
                                                               else Some ''kyc''),
                                               kyc_completo = None \<rparr> \<rparr>
                           else ret \<lparr> exito = True, puede_transferir = True,
                                      code = None,
                                      data = \<lparr> limite_actual = limite_actual,
                                               usado_hoy = usedToday,
                                               disponible = disponible,
                                               monto_solicitado = monto_transferencia,
                                               exceso = None,
                                               como_ampliar = None,
                                               kyc_completo = Some (UserAccount.kyc_completo account) \<rparr> \<rparr>))))))"

record FraudBody =
  usuario_id :: "string option"
  monto_transferencia :: "number option"
  cuenta_destino :: "string option"

record FraudRisk =
  tipo :: string
  severity :: string

record FraudJson =
  exito :: bool
  usuario_id :: string
  monto_transferencia :: number
  cuenta_destino :: string
  riesgo_fraude :: string
  requiere_verificacion_adicional :: bool
  factores_riesgo :: "FraudRisk list"
  puede_proceder :: bool

definition performFraudCheck :: "env \<Rightarrow> FraudBody \<Rightarrow> db \<Rightarrow> FraudJson res" where
  "performFraudCheck e body =
     (if falsy_string (FraudBody.usuario_id body) \<or> falsy_number (FraudBody.monto_transferencia body)
         \<or> falsy_string (FraudBody.cuenta_destino body)
      then throw (ValidationError
             ''Missing required fields: usuario_id, monto_transferencia, cuenta_destino'')
      else (let usuario_id = the (FraudBody.usuario_id body);
                monto_transferencia = the (FraudBody.monto_transferencia body);
                cuenta_destino = the (FraudBody.cuenta_destino body)
            in if monto_transferencia \<le> 0
               then throw (ValidationError ''Transfer amount must be greater than 0'')
               else bind (getUserAccount usuario_id) (\<lambda>account.
                 (let accountAge = (now e - fecha_registro account) div ms_per_day;
                      fraudRisks1 = (if accountAge < 30 \<and> monto_transferencia > 5000
                                     then [\<lparr> tipo = ''cuenta_nueva_monto_alto'', severity = ''media'' \<rparr>]
                                     else [])
                  in bind (getDailyTransferCount e usuario_id) (\<lambda>dailyTransfers.
                       (let fraudRisks2 = (if dailyTransfers > 10
                                           then fraudRisks1 @
                                                [\<lparr> tipo = ''transferencias_frecuentes'', severity = ''alta'' \<rparr>]
                                           else fraudRisks1);
                            fraudRisks = (if historial_mora account
                                          then fraudRisks2 @
                                               [\<lparr> tipo = ''historial_mora'', severity = ''alta'' \<rparr>]
                                          else fraudRisks2);
                            riesgo_fraude = (if length fraudRisks > 0 then ''alto'' else ''bajo'');
                            requiere_verificacion = list_ex (\<lambda>r. severity r = ''alta'') fraudRisks
                        in ret \<lparr> exito = True,
                                 usuario_id = usuario_id,
                                 monto_transferencia = monto_transferencia,
                                 cuenta_destino = take 4 cuenta_destino @ ''****''
                                                  @ drop (length cuenta_destino - 2) cuenta_destino,
                                 riesgo_fraude = riesgo_fraude,
                                 requiere_verificacion_adicional = requiere_verificacion,
                                 factores_riesgo = fraudRisks,
                                 puede_proceder = (\<not> requiere_verificacion) \<rparr>))))))"

section \<open>Quantities and invariants of the properties\<close>

text \<open>
  The sum of the installment amounts of a plan: the sum of the rationals they denote, and
  the sum that binary64 additions give from the first installment to the last.
\<close>

definition plan_total :: "InstallmentPlan list \<Rightarrow> number" where
  "plan_total plan = sum_list (map importe plan)"

definition plan_total_binary64 :: "InstallmentPlan list \<Rightarrow> number" where
  "plan_total_binary64 plan = foldl fadd 0 (map importe plan)"

text \<open>
  The unrounded \<^verbatim>\<open>totalAmount\<close> of \<^verbatim>\<open>calculateCredit\<close>: principal plus interest plus
  administrative charges, as binary64 computes them.
\<close>

definition unrounded_total :: "number \<Rightarrow> number \<Rightarrow> number \<Rightarrow> number" where
  "unrounded_total p tea termDays =
     fadd (fadd p (fmul (fmul p (fdiv tea 100)) (fdiv termDays 365)))
          (fmul p (fdiv adminChargePercentage 100))"

text \<open>
  The amounts of a schedule of \<open>n\<close> installments over the total \<open>T\<close> in which every
  installment but the last is \<open>T / n\<close> and the last is \<open>T\<close> minus the \<open>n - 1\<close>
  others, each operation in binary64.
\<close>

definition installments_of :: "number \<Rightarrow> nat \<Rightarrow> number list" where
  "installments_of T n =
     replicate (n - 1) (fdiv T (of_nat n))
       @ [fsub T (fmul (fdiv T (of_nat n)) (of_nat (n - 1)))]"

text \<open>No account of the store has a negative available balance.\<close>

definition balance_inv :: "db \<Rightarrow> bool" where
  "balance_inv d = (\<forall>u a. user_accounts d u = Some a \<longrightarrow> 0 \<le> saldo_disponible a)"

text \<open>The available balance of a user, if the account exists.\<close>

definition saldo_of :: "db \<Rightarrow> string \<Rightarrow> number option" where
  "saldo_of d u = map_option saldo_disponible (user_accounts d u)"

text \<open>
  The settled transfers of a user on the UTC day of the clock, as
  \<^verbatim>\<open>getDailyTransferTotal\<close> and \<^verbatim>\<open>getDailyTransferCount\<close> select them.
\<close>

definition settled_today :: "env \<Rightarrow> string \<Rightarrow> db \<Rightarrow> Transfer list" where
  "settled_today e u d =
     filter (\<lambda>t. Transfer.estado t = ACREDITADA)
       (filter (\<lambda>t. usuario_id_origen t = u
                    \<and> now e - now e mod ms_per_day \<le> Transfer.fecha_creacion t
                    \<and> Transfer.fecha_creacion t \<le> now e - now e mod ms_per_day + (ms_per_day - 1))
          (transferencias d))"

text \<open>The documents of a user on file, whatever their validation state.\<close>

definition has_document :: "db \<Rightarrow> string \<Rightarrow> tipo_documento \<Rightarrow> bool" where
  "has_document d u k =
     list_ex (\<lambda>doc. KYCDocument.usuario_id doc = u \<and> KYCDocument.tipo_documento doc = k)
       (kyc_documents d)"

text \<open>A reset token that is unknown, already used or past its expiry.\<close>

definition token_invalid :: "env \<Rightarrow> db \<Rightarrow> string \<Rightarrow> bool" where
  "token_invalid e d tok =
     (case password_reset_tokens d tok of
        None \<Rightarrow> True
      | Some t \<Rightarrow> utilizado t \<or> PasswordResetToken.fecha_vencimiento t \<le> now e)"

section \<open>Concrete inputs\<close>

definition env0 :: env where
  "env0 = \<lparr> now = 1700000000000,
            addDays = (\<lambda>t k. t + k * ms_per_day),
            addMonths = (\<lambda>t k. t + k * 30 * ms_per_day),
            uuidv4 = (\<lambda>k. ''id-'' @ replicate k (CHR ''i'')),
            hashPassword = (\<lambda>p. ''salt.'' @ p),
            verifyPassword = (\<lambda>p h. h = ''salt.'' @ p) \<rparr>"

definition cuenta_u1 :: UserAccount where
  "cuenta_u1 =
     \<lparr> UserAccount.usuario_id = ''u1'',
       password_hash = Some ''salt.secret'',
       UserAccount.kyc_completo = False,
       kyc_status = None,
       fecha_registro = 1699136000000,
       saldo_disponible = 20000,
       ingresos_declarados = None,
       historial_mora = False,
       score_externo = None,
       bloqueado = False,
       intentos_fallidos = 4,
       fecha_proximo_intento = None,
       limite_transferencia = None,
       fecha_actualizacion = 0 \<rparr>"

definition cuenta_u2 :: UserAccount where
  "cuenta_u2 =
     \<lparr> UserAccount.usuario_id = ''u2'',
       password_hash = Some ''salt.hunter22'',
       UserAccount.kyc_completo = True,
       kyc_status = Some APROBADO,
       fecha_registro = 1600000000000,
       saldo_disponible = 100,
       ingresos_declarados = None,
       historial_mora = True,
       score_externo = None,
       bloqueado = True,
       intentos_fallidos = 5,
       fecha_proximo_intento = Some 1700000600000,
       limite_transferencia = Some 50000,
       fecha_actualizacion = 0 \<rparr>"

definition credito_c1 :: Credit where
  "credito_c1 =
     \<lparr> Credit.id_credito = ''c1'',
       usuario_id = ''u1'',
       tipo_credito = QUICK,
       monto_solicitado = 5000,
       monto_total = 5552,
       plazo_dias = 30,
       tasa_tea = 110,
       tasa_cft = 126,
       estado = PREAPPROVED,
       fecha_desembolso = None,
       fecha_vencimiento = 1702592000000,
       cuotas = 1,
       fecha_creacion = 1700000000000,
       fecha_actualizacion = 1700000000000 \<rparr>"

definition credito_c2 :: Credit where
  "credito_c2 =
     \<lparr> Credit.id_credito = ''c2'',
       usuario_id = ''u2'',
       tipo_credito = QUICK,
       monto_solicitado = 500,
       monto_total = 555,
       plazo_dias = 30,
       tasa_tea = 110,
       tasa_cft = 126,
       estado = PREAPPROVED,
       fecha_desembolso = None,
       fecha_vencimiento = 1702592000000,
       cuotas = 1,
       fecha_creacion = 1700000000000,
       fecha_actualizacion = 1700000000000 \<rparr>"

definition transferencia_t1 :: Transfer where
  "transferencia_t1 =
     \<lparr> id_transferencia = ''t1'',
       usuario_id_origen = ''u1'',
       monto = 8000,
       estado = ACREDITADA,
       fecha_creacion = 1699999000000 \<rparr>"

definition documento_dni :: KYCDocument where
  "documento_dni =
     \<lparr> id_documento = ''k1'', usuario_id = ''u1'', tipo_documento = dni,
       url_documento = ''https://docs/k1'', fecha_carga = 1699000000000,
       estado_validacion = PENDIENTE \<rparr>"

definition documento_selfie :: KYCDocument where
  "documento_selfie =
     \<lparr> id_documento = ''k2'', usuario_id = ''u1'', tipo_documento = selfie,
       url_documento = ''https://docs/k2'', fecha_carga = 1699000100000,
       estado_validacion = RECHAZADO \<rparr>"

definition documento_dni_u2 :: KYCDocument where
  "documento_dni_u2 =
     \<lparr> id_documento = ''k3'', usuario_id = ''u2'', tipo_documento = dni,
       url_documento = ''https://docs/k3'', fecha_carga = 1699000200000,
       estado_validacion = APROBADO \<rparr>"

definition token_vencido :: PasswordResetToken where
  "token_vencido =
     \<lparr> token = ''tok1'', usuario_id = ''u1'',
       fecha_creacion = 1699900000000,
       fecha_vencimiento = 1699986400000,
       utilizado = False,
       fecha_utilizacion = None \<rparr>"

definition db0 :: db where
  "db0 =
     \<lparr> user_accounts = [''u1'' \<mapsto> cuenta_u1, ''u2'' \<mapsto> cuenta_u2],
       creditos = [''c1'' \<mapsto> credito_c1, ''c2'' \<mapsto> credito_c2],
       cuotas_rows = [],
       transferencias = [transferencia_t1],
       kyc_documents = [documento_dni, documento_selfie, documento_dni_u2],
       password_reset_tokens = [''tok1'' \<mapsto> token_vencido] \<rparr>"

definition db_expiry_left :: db where
  "db_expiry_left =
     db0\<lparr> user_accounts := (user_accounts db0)
            (''u1'' \<mapsto> cuenta_u1\<lparr> fecha_proximo_intento := Some 1699990000000 \<rparr>) \<rparr>"

definition env_tras_vencimiento :: env where
  "env_tras_vencimiento = env0\<lparr> now := 1700003600000 \<rparr>"

definition db_tras_login :: db where
  "db_tras_login = snd (validateCredentials env_tras_vencimiento ''u2'' ''hunter22'' db0)"

definition db_bloqueo_manual :: db where
  "db_bloqueo_manual =
     snd (UserAccountsRepository_blockAccount env_tras_vencimiento ''u2'' db_tras_login)"

definition pedido_u1_15000 :: TransferBody where
  "pedido_u1_15000 =
     \<lparr> TransferBody.usuario_id = Some ''u1'', monto_destino = Some 15000,
       cuenta_destino = Some ''u2'' \<rparr>"

definition pedido_u2_600 :: TransferBody where
  "pedido_u2_600 =
     \<lparr> TransferBody.usuario_id = Some ''u2'', monto_destino = Some 600,
       cuenta_destino = Some ''u1'' \<rparr>"

definition limites_u1_15000 :: LimitsBody where
  "limites_u1_15000 =
     \<lparr> LimitsBody.usuario_id = Some ''u1'', monto_transferencia = Some 15000 \<rparr>"

definition fraude_u1_6000 :: FraudBody where
  "fraude_u1_6000 =
     \<lparr> FraudBody.usuario_id = Some ''u1'', monto_transferencia = Some 6000,
       cuenta_destino = Some ''0170835104000003141816'' \<rparr>"

definition pedido_normal_9_meses :: CreditRequest where
  "pedido_normal_9_meses =
     \<lparr> CreditRequest.usuario_id = ''u1'', tipo_credito = NORMAL,
       monto_solicitado = 1000, plazo_dias = 270 \<rparr>"

section \<open>The error of a binary64 operation\<close>

lemma roundTiesToEven_error: "\<bar>of_int (roundTiesToEven y) - y\<bar> \<le> 1 / 2"
proof -
  have "of_int \<lfloor>y\<rfloor> \<le> y" "y < of_int \<lfloor>y\<rfloor> + 1"
    by linarith+
  then show ?thesis
    unfolding roundTiesToEven_def Let_def
    by (simp add: abs_if) linarith
qed

lemma exponent_le:
  assumes "0 < x"
  shows "2 powi (exponent x) \<le> x"
proof (cases "1 \<le> x")
  case True
  then have pos: "0 < \<lfloor>x\<rfloor>" by linarith
  from bitlen_bounds [OF pos] have b: "2 ^ nat (bitlen \<lfloor>x\<rfloor> - 1) \<le> \<lfloor>x\<rfloor>" by simp
  have k: "1 \<le> bitlen \<lfloor>x\<rfloor>"
    using pos bitlen_eq_zero_iff [of "\<lfloor>x\<rfloor>"] bitlen_nonneg [of "\<lfloor>x\<rfloor>"] by linarith
  have "(2::rat) powi (bitlen \<lfloor>x\<rfloor> - 1) = 2 ^ nat (bitlen \<lfloor>x\<rfloor> - 1)"
    using k by (simp add: power_int_def)
  also have "\<dots> = of_int (2 ^ nat (bitlen \<lfloor>x\<rfloor> - 1))" by simp
  also have "\<dots> \<le> of_int \<lfloor>x\<rfloor>" using b by (simp only: of_int_le_iff)
  also have "\<dots> \<le> x" by linarith
  finally show ?thesis using True by (simp add: exponent_def)
next
  case False
  let ?m = "\<lfloor>1 / x\<rfloor>"
  let ?k = "bitlen ?m"
  have "1 < 1 / x" using False assms by (simp add: field_simps)
  then have pos: "0 < ?m" by linarith
  show ?thesis
  proof (cases "2 powi (1 - ?k) \<le> x")
    case True
    then show ?thesis using False by (simp add: exponent_def Let_def)
  next
    case F2: False
    from bitlen_bounds [OF pos] have "?m < 2 ^ nat ?k" by simp
    then have "?m + 1 \<le> 2 ^ nat ?k" by linarith
    then have "(of_int (?m + 1) :: rat) \<le> of_int (2 ^ nat ?k)" by (simp only: of_int_le_iff)
    moreover have "1 / x < of_int (?m + 1)" by simp linarith
    ultimately have lt: "1 / x < 2 ^ nat ?k" by simp
    have kpos: "0 \<le> ?k" by (rule bitlen_nonneg)
    have "(2::rat) powi (- ?k) = 1 / 2 ^ nat ?k"
      using kpos by (simp add: power_int_def field_simps)
    also have "\<dots> \<le> x"
      using lt assms by (simp add: field_simps)
    finally show ?thesis using False F2 by (simp add: exponent_def Let_def)
  qed
qed

lemma fl64_error: "\<bar>fl64 x - x\<bar> \<le> \<bar>x\<bar> / 2 ^ 53 + 1 / 2 ^ 1075"
proof (cases "x = 0")
  case True
  then show ?thesis by (simp add: fl64_def)
next
  case False
  define e where "e = max (exponent \<bar>x\<bar>) (- 1022)"
  define q :: rat where "q = 2 powi (e - 52)"
  have qpos: "0 < q" by (simp add: q_def)
  have fl: "fl64 x = q * of_int (roundTiesToEven (x / q))"
    using False by (simp add: fl64_def Let_def e_def q_def)
  have "\<bar>fl64 x - x\<bar> = q * \<bar>of_int (roundTiesToEven (x / q)) - x / q\<bar>"
  proof -
    have "fl64 x - x = q * (of_int (roundTiesToEven (x / q)) - x / q)"
      using qpos by (simp add: fl field_simps)
    then show ?thesis using qpos by (simp add: abs_mult)
  qed
  also have "\<dots> \<le> q * (1 / 2)"
    using qpos roundTiesToEven_error [of "x / q"] by (intro mult_left_mono) simp_all
  finally have half: "\<bar>fl64 x - x\<bar> \<le> q / 2" by simp
  have "q / 2 \<le> \<bar>x\<bar> / 2 ^ 53 + 1 / 2 ^ 1075"
  proof (cases "- 1022 \<le> exponent \<bar>x\<bar>")
    case True
    then have "e = exponent \<bar>x\<bar>" by (simp add: e_def)
    then have "q = 2 powi (exponent \<bar>x\<bar>) / 2 ^ 52"
      by (simp add: q_def power_int_diff)
    moreover have "2 powi (exponent \<bar>x\<bar>) \<le> \<bar>x\<bar>"
      using False by (intro exponent_le) simp
    ultimately have "q \<le> \<bar>x\<bar> / 2 ^ 52"
      by (simp add: divide_right_mono)
    then have "q / 2 \<le> \<bar>x\<bar> / 2 ^ 53"
      by simp
    moreover have "(0::rat) \<le> 1 / 2 ^ 1075"
      by simp
    ultimately show ?thesis by linarith
  next
    case F: False
    then have "e = - 1022" by (simp add: e_def)
    then have "q / 2 = 1 / 2 ^ 1075"
      by (simp add: q_def power_int_minus field_simps)
    then show ?thesis by simp
  qed
  with half show ?thesis by linarith
qed

lemma fl64_error_weak: "\<bar>fl64 x - x\<bar> \<le> (\<bar>x\<bar> + 1) / 2 ^ 53"
proof -
  have "(1::rat) / 2 ^ 1075 \<le> 1 / 2 ^ 53"
    by (intro divide_left_mono power_increasing) simp_all
  with fl64_error [of x] show ?thesis by (simp add: add_divide_distrib)
qed

lemma fl64_abs_le2: "\<bar>fl64 x\<bar> \<le> 2 * \<bar>x\<bar> + 1"
proof -
  have "(\<bar>x\<bar> + 1) / 2 ^ 53 \<le> \<bar>x\<bar> + 1"
    by (simp add: field_simps)
  with fl64_error_weak [of x] show ?thesis by linarith
qed

lemma fmul_abs_le:
  assumes "\<bar>x\<bar> \<le> X" and "\<bar>y\<bar> \<le> Y"
  shows "\<bar>fmul x y\<bar> \<le> 2 * (X * Y) + 1"
proof -
  have "\<bar>x * y\<bar> \<le> X * Y"
    unfolding abs_mult using assms by (intro mult_mono) auto
  with fl64_abs_le2 [of "x * y"] show ?thesis by (simp add: fmul_def)
qed

lemma fadd_abs_le:
  assumes "\<bar>x\<bar> \<le> X" and "\<bar>y\<bar> \<le> Y"
  shows "\<bar>fadd x y\<bar> \<le> 2 * (X + Y) + 1"
proof -
  have "\<bar>x + y\<bar> \<le> X + Y" using assms by linarith
  with fl64_abs_le2 [of "x + y"] show ?thesis by (simp add: fadd_def)
qed

lemma total_bound:
  assumes p: "\<bar>p\<bar> \<le> 10 ^ 12"
    and r: "\<bar>r\<bar> \<le> 2" and yf: "\<bar>yf\<bar> \<le> 1" and c: "\<bar>c\<bar> \<le> 1"
  shows "\<bar>fadd (fadd p (fmul (fmul p r) yf)) (fmul p c)\<bar> \<le> 2 ^ 46"
proof -
  have x1: "\<bar>fmul p r\<bar> \<le> 2 * (10 ^ 12 * 2) + 1"
    using p r by (rule fmul_abs_le)
  have i: "\<bar>fmul (fmul p r) yf\<bar> \<le> 2 * ((2 * (10 ^ 12 * 2) + 1) * 1) + 1"
    using x1 yf by (rule fmul_abs_le)
  have a: "\<bar>fmul p c\<bar> \<le> 2 * (10 ^ 12 * 1) + 1"
    using p c by (rule fmul_abs_le)
  have s1: "\<bar>fadd p (fmul (fmul p r) yf)\<bar> \<le> 2 * (10 ^ 12 + (2 * ((2 * (10 ^ 12 * 2) + 1) * 1) + 1)) + 1"
    using p i by (rule fadd_abs_le)
  have "\<bar>fadd (fadd p (fmul (fmul p r) yf)) (fmul p c)\<bar>
          \<le> 2 * ((2 * (10 ^ 12 + (2 * ((2 * (10 ^ 12 * 2) + 1) * 1) + 1)) + 1) + (2 * (10 ^ 12 * 1) + 1)) + 1"
    using s1 a by (rule fadd_abs_le)
  also have "\<dots> \<le> (2::rat) ^ 46" by simp
  finally show ?thesis .
qed

lemma installments_sum_error:
  assumes T: "\<bar>T\<bar> \<le> 2 ^ 46" and n1: "1 \<le> n" and n12: "n \<le> 12"
  shows "\<bar>of_int (n - 1) * fdiv T (of_int n)
           + fsub T (fmul (fdiv T (of_int n)) (of_int (n - 1))) - T\<bar> \<le> 1 / 32"
proof -
  define a where "a = fdiv T (of_int n)"
  define y where "y = fmul a (of_int (n - 1))"
  define L where "L = fsub T y"
  define m :: rat where "m = of_int (n - 1)"
  have m0: "0 \<le> m" and m11: "m \<le> 11" and mn: "m \<le> of_int n" and npos: "(1::rat) \<le> of_int n"
    using n1 n12 by (simp_all add: m_def)
  have Tn: "\<bar>T / of_int n\<bar> * m \<le> \<bar>T\<bar>"
  proof -
    have "\<bar>T / of_int n\<bar> * m = \<bar>T\<bar> * (m / of_int n)"
      using npos by simp
    also have "\<dots> \<le> \<bar>T\<bar> * 1"
      using mn npos m0 by (intro mult_left_mono) (simp_all add: field_simps)
    finally show ?thesis by simp
  qed
  have Tn1: "\<bar>T / of_int n\<bar> \<le> \<bar>T\<bar>"
  proof -
    have "\<bar>T\<bar> * 1 \<le> \<bar>T\<bar> * of_int n"
      using npos by (intro mult_left_mono) simp_all
    then show ?thesis using npos by (simp add: field_simps)
  qed
  have ea: "\<bar>a - T / of_int n\<bar> \<le> 1"
  proof -
    have "\<bar>a - T / of_int n\<bar> \<le> (\<bar>T / of_int n\<bar> + 1) / 2 ^ 53"
      unfolding a_def fdiv_def by (rule fl64_error_weak)
    also have "\<dots> \<le> (2 ^ 46 + 1) / 2 ^ 53"
      using Tn1 T by (intro divide_right_mono) simp_all
    also have "\<dots> \<le> 1" by simp
    finally show ?thesis .
  qed
  have am: "\<bar>a * m\<bar> \<le> 2 ^ 46 + 11"
  proof -
    have "\<bar>a\<bar> \<le> \<bar>T / of_int n\<bar> + 1" using ea by linarith
    then have "\<bar>a\<bar> * m \<le> (\<bar>T / of_int n\<bar> + 1) * m"
      using m0 by (rule mult_right_mono)
    also have "\<dots> = \<bar>T / of_int n\<bar> * m + m" by (simp add: algebra_simps)
    also have "\<dots> \<le> \<bar>T\<bar> + 11" using Tn m11 by linarith
    finally show ?thesis using T m0 by (simp add: abs_mult)
  qed
  have e1: "\<bar>y - a * m\<bar> \<le> (2 ^ 46 + 12) / 2 ^ 53"
  proof -
    have "\<bar>y - a * m\<bar> \<le> (\<bar>a * m\<bar> + 1) / 2 ^ 53"
      unfolding y_def fmul_def m_def by (rule fl64_error_weak)
    also have "\<dots> \<le> (2 ^ 46 + 12) / 2 ^ 53"
      using am by (intro divide_right_mono) simp_all
    finally show ?thesis .
  qed
  have yb: "\<bar>y\<bar> \<le> 2 ^ 46 + 12"
  proof -
    have "(2 ^ 46 + 12) / 2 ^ 53 \<le> (1::rat)" by simp
    with e1 am show ?thesis by linarith
  qed
  have e2: "\<bar>L - (T - y)\<bar> \<le> (2 * 2 ^ 46 + 13) / 2 ^ 53"
  proof -
    have "\<bar>L - (T - y)\<bar> \<le> (\<bar>T - y\<bar> + 1) / 2 ^ 53"
      unfolding L_def fsub_def by (rule fl64_error_weak)
    also have "\<dots> \<le> (2 * 2 ^ 46 + 13) / 2 ^ 53"
      using T yb by (intro divide_right_mono) simp_all
    finally show ?thesis .
  qed
  have ae: "\<bar>m * a - a * m\<bar> = 0" by (simp add: mult.commute)
  have "\<bar>m * a + L - T\<bar> \<le> \<bar>y - a * m\<bar> + \<bar>L - (T - y)\<bar>"
    by (simp add: mult.commute)
  also have "\<dots> \<le> (2 ^ 46 + 12) / 2 ^ 53 + (2 * 2 ^ 46 + 13) / 2 ^ 53"
    using e1 e2 by linarith
  also have "\<dots> \<le> 1 / 32" by simp
  finally show ?thesis
    by (simp add: m_def a_def y_def L_def)
qed

lemma fl64_small_values:
  "fdiv 30 30 = 1" "fdiv 60 30 = 2" "fdiv 90 30 = 3"
  "fmul 3 30 = 90" "fmul 6 30 = 180" "fmul 12 30 = 360"
  "fdiv 180 30 = 6" "fdiv 360 30 = 12"
  by code_simp+

lemma rate_bounds:
  "\<bar>fdiv 110 100\<bar> \<le> 2" "\<bar>fdiv 115 100\<bar> \<le> 2" "\<bar>fdiv 120 100\<bar> \<le> 2"
  "\<bar>fdiv 85 100\<bar> \<le> 2" "\<bar>fdiv 90 100\<bar> \<le> 2" "\<bar>fdiv 95 100\<bar> \<le> 2"
  by code_simp+

lemma year_fraction_bounds:
  "\<bar>fdiv 30 365\<bar> \<le> 1" "\<bar>fdiv 60 365\<bar> \<le> 1" "\<bar>fdiv 90 365\<bar> \<le> 1"
  "\<bar>fdiv 180 365\<bar> \<le> 1" "\<bar>fdiv 360 365\<bar> \<le> 1"
  by code_simp+

lemma admin_charge_bound: "\<bar>fdiv adminChargePercentage 100\<bar> \<le> 1"
  by code_simp

lemma cft_values:
  "round (fmul 110 cftMultiplier) = 126" "round (fmul 115 cftMultiplier) = 132"
  "round (fmul 120 cftMultiplier) = 138" "round (fmul 85 cftMultiplier) = 98"
  "round (fmul 90 cftMultiplier) = 103" "round (fmul 95 cftMultiplier) = 109"
  by code_simp+

section \<open>The amortization schedule\<close>

lemma plan_loop_upto:
  "plan_loop e T a n s dd i plan = plan @ map (plan_row e T a n s dd) [i..n]"
proof (induction e T a n s dd i plan rule: plan_loop.induct)
  case (1 e T a n s dd i plan)
  show ?case
  proof (cases "i \<le> n")
    case True
    then show ?thesis
      using "1.IH" by (subst plan_loop.simps) (simp add: upto_rec1 [of i n])
  next
    case False
    then show ?thesis by (subst plan_loop.simps) simp
  qed
qed

lemma map_constant:
  "(\<forall>i \<in> set xs. f i = c) \<Longrightarrow> map f xs = replicate (length xs) c"
  by (induction xs) auto

lemma importe_plan_row:
  "importe (plan_row e T a n s dd i) =
     (if i = n then fsub T (fmul a (of_int (n - 1))) else a)"
  by (simp add: plan_row_def)

lemma importes_rows:
  assumes "1 \<le> n"
  shows "map importe (map (plan_row e T a n s dd) [1..n]) =
           replicate (nat n - 1) a @ [fsub T (fmul a (of_int (n - 1)))]"
proof -
  have split: "[1..n] = [1..n - 1] @ [n]"
    using assms by (simp add: upto_rec2)
  have "map (\<lambda>i. importe (plan_row e T a n s dd i)) [1..n - 1] = replicate (length [1..n - 1]) a"
    by (rule map_constant) (auto simp: importe_plan_row)
  moreover have "length [1..n - 1] = nat n - 1"
    using assms by simp
  ultimately show ?thesis
    by (simp add: split comp_def importe_plan_row)
qed

lemma calculateCredit_plan:
  "CreditCalculation.plan_cuotas (calculateCredit e p tea cft termDays ty) =
     map (plan_row e (unrounded_total p tea termDays)
            (fdiv (unrounded_total p tea termDays)
               (of_int (if ty = quick then \<lceil>fdiv termDays 30\<rceil> else \<lfloor>fdiv termDays 30\<rfloor>)))
            (if ty = quick then \<lceil>fdiv termDays 30\<rceil> else \<lfloor>fdiv termDays 30\<rfloor>) (now e) 30)
       [1..(if ty = quick then \<lceil>fdiv termDays 30\<rceil> else \<lfloor>fdiv termDays 30\<rfloor>)]"
  by (simp add: calculateCredit_def Let_def plan_loop_upto unrounded_total_def)

lemma calculateCredit_total:
  "CreditCalculation.monto_total (calculateCredit e p tea cft termDays ty) =
     of_int (round (unrounded_total p tea termDays))"
  by (simp add: calculateCredit_def Let_def unrounded_total_def)

lemma calculateCredit_importes:
  assumes "(if ty = quick then \<lceil>fdiv termDays 30\<rceil> else \<lfloor>fdiv termDays 30\<rfloor>) = n" and "1 \<le> n"
  shows "map importe (CreditCalculation.plan_cuotas (calculateCredit e p tea cft termDays ty)) =
           installments_of (unrounded_total p tea termDays) (nat n)"
    and "int (length (CreditCalculation.plan_cuotas (calculateCredit e p tea cft termDays ty))) = n"
proof -
  have pl: "CreditCalculation.plan_cuotas (calculateCredit e p tea cft termDays ty) =
          map (plan_row e (unrounded_total p tea termDays)
                 (fdiv (unrounded_total p tea termDays) (of_int n)) n (now e) 30) [1..n]"
    unfolding calculateCredit_plan assms(1) ..
  have n: "(of_nat (nat n) :: rat) = of_int n" "(of_nat (nat n - 1) :: rat) = of_int (n - 1)"
    using assms(2) by simp_all
  show "map importe (CreditCalculation.plan_cuotas (calculateCredit e p tea cft termDays ty)) =
           installments_of (unrounded_total p tea termDays) (nat n)"
    unfolding pl importes_rows [OF assms(2)] installments_of_def n ..
  show "int (length (CreditCalculation.plan_cuotas (calculateCredit e p tea cft termDays ty))) = n"
    unfolding pl using assms(2) by simp
qed

lemma sum_installments_of:
  assumes "\<bar>T\<bar> \<le> 2 ^ 46" and "1 \<le> n" and "n \<le> 12"
  shows "\<bar>sum_list (installments_of T n) - T\<bar> \<le> 1 / 32"
proof -
  have c: "(of_nat (n - Suc 0) :: rat) = of_nat n - 1"
    using assms(2) by simp
  show ?thesis
    using installments_sum_error [OF assms(1), of "int n"] assms(2,3)
    by (simp add: installments_of_def sum_list_replicate c)
qed

lemma sum_near_rounded_total:
  assumes "\<bar>s - T\<bar> \<le> 1 / 32"
  shows "\<bar>s - of_int (round T)\<bar> \<le> (1::rat)"
  using assms of_int_round_abs_le [of T] by linarith

lemma simulateQuickCredit_fields:
  assumes "map_of quickCreditRates termDays = Some tea"
  shows "\<exists>sim. simulateQuickCredit e u p termDays = Inr sim
           \<and> CreditSimulation.plan_cuotas sim =
               CreditCalculation.plan_cuotas
                 (calculateCredit e p tea (of_int (round (fmul tea cftMultiplier))) termDays quick)
           \<and> CreditSimulation.monto_total sim =
               CreditCalculation.monto_total
                 (calculateCredit e p tea (of_int (round (fmul tea cftMultiplier))) termDays quick)
           \<and> CreditSimulation.tasa_tea sim = tea
           \<and> CreditSimulation.monto_solicitado sim = p
           \<and> CreditSimulation.plazo_dias sim = termDays
           \<and> CreditSimulation.tipo_credito sim = QUICK"
  using assms by (simp add: simulateQuickCredit_def Let_def)

lemma simulateNormalCredit_fields:
  assumes "map_of normalCreditRates termMonths = Some tea"
  shows "\<exists>sim. simulateNormalCredit e u p termMonths = Inr sim
           \<and> CreditSimulation.plan_cuotas sim =
               CreditCalculation.plan_cuotas
                 (calculateCredit e p tea (of_int (round (fmul tea cftMultiplier)))
                    (fmul termMonths 30) normal)
           \<and> CreditSimulation.monto_total sim =
               CreditCalculation.monto_total
                 (calculateCredit e p tea (of_int (round (fmul tea cftMultiplier)))
                    (fmul termMonths 30) normal)
           \<and> CreditSimulation.tasa_tea sim = tea
           \<and> CreditSimulation.plazo_dias sim = fmul termMonths 30"
  using assms by (simp add: simulateNormalCredit_def Let_def)

lemma schedule_facts:
  fixes e :: env and cft :: number
  assumes n: "(if ty = quick then \<lceil>fdiv termDays 30\<rceil> else \<lfloor>fdiv termDays 30\<rfloor>) = n"
    and n1: "1 \<le> n" and n12: "n \<le> 12"
    and p: "\<bar>p\<bar> \<le> 10 ^ 12"
    and r: "\<bar>fdiv tea 100\<bar> \<le> 2" and yf: "\<bar>fdiv termDays 365\<bar> \<le> 1"
  defines "plan \<equiv> CreditCalculation.plan_cuotas (calculateCredit e p tea cft termDays ty)"
  shows "int (length plan) = n"
    and "map importe plan = installments_of (unrounded_total p tea termDays) (length plan)"
    and "\<bar>plan_total plan - unrounded_total p tea termDays\<bar> \<le> 1 / 32"
    and "\<bar>plan_total plan - of_int (round (unrounded_total p tea termDays))\<bar> \<le> 1"
proof -
  let ?T = "unrounded_total p tea termDays"
  show len: "int (length plan) = n"
    unfolding plan_def using n n1 by (rule calculateCredit_importes(2))
  then have l: "length plan = nat n" by simp
  show imp: "map importe plan = installments_of ?T (length plan)"
    unfolding l unfolding plan_def using n n1 by (rule calculateCredit_importes(1))
  have T: "\<bar>?T\<bar> \<le> 2 ^ 46"
    unfolding unrounded_total_def using p r yf admin_charge_bound by (rule total_bound)
  have "\<bar>sum_list (installments_of ?T (nat n)) - ?T\<bar> \<le> 1 / 32"
    using T n1 n12 by (intro sum_installments_of) simp_all
  then show s: "\<bar>plan_total plan - ?T\<bar> \<le> 1 / 32"
    unfolding plan_total_def imp l .
  then show "\<bar>plan_total plan - of_int (round ?T)\<bar> \<le> 1"
    by (rule sum_near_rounded_total)
qed

lemma quick_schedule:
  assumes "termDays \<in> {30, 60, 90}" and "\<bar>p\<bar> \<le> 10 ^ 12"
  shows "\<exists>sim. simulateQuickCredit e u p termDays = Inr sim
           \<and> int (length (CreditSimulation.plan_cuotas sim)) = \<lceil>termDays / 30\<rceil>
           \<and> map importe (CreditSimulation.plan_cuotas sim) =
               installments_of
                 (unrounded_total p (CreditSimulation.tasa_tea sim) (CreditSimulation.plazo_dias sim))
                 (length (CreditSimulation.plan_cuotas sim))
           \<and> CreditSimulation.monto_total sim =
               of_int (round (unrounded_total p (CreditSimulation.tasa_tea sim)
                                (CreditSimulation.plazo_dias sim)))
           \<and> \<bar>plan_total (CreditSimulation.plan_cuotas sim)
                - unrounded_total p (CreditSimulation.tasa_tea sim) (CreditSimulation.plazo_dias sim)\<bar>
               \<le> 1 / 32
           \<and> \<bar>plan_total (CreditSimulation.plan_cuotas sim) - CreditSimulation.monto_total sim\<bar> \<le> 1"
proof -
  obtain tea where tea: "map_of quickCreditRates termDays = Some tea"
    and r: "\<bar>fdiv tea 100\<bar> \<le> 2"
    using assms(1) rate_bounds by (auto simp: quickCreditRates_def)
  have n: "(if quick = quick then \<lceil>fdiv termDays 30\<rceil> else \<lfloor>fdiv termDays 30\<rfloor>) = \<lceil>termDays / 30\<rceil>"
    using assms(1) by (auto simp: fl64_small_values)
  have n1: "1 \<le> \<lceil>termDays / 30\<rceil>" and n12: "\<lceil>termDays / 30\<rceil> \<le> 12"
    using assms(1) by auto
  have yf: "\<bar>fdiv termDays 365\<bar> \<le> 1"
    using assms(1) year_fraction_bounds by auto
  let ?c = "calculateCredit e p tea (of_int (round (fmul tea cftMultiplier))) termDays quick"
  obtain sim where sim: "simulateQuickCredit e u p termDays = Inr sim"
    and pl: "CreditSimulation.plan_cuotas sim = CreditCalculation.plan_cuotas ?c"
    and mt: "CreditSimulation.monto_total sim = CreditCalculation.monto_total ?c"
    and tt: "CreditSimulation.tasa_tea sim = tea"
    and pd: "CreditSimulation.plazo_dias sim = termDays"
    using simulateQuickCredit_fields [OF tea] by blast
  note f = schedule_facts [OF n n1 n12 assms(2) r yf, of e "of_int (round (fmul tea cftMultiplier))"]
  have g1: "int (length (CreditSimulation.plan_cuotas sim)) = \<lceil>termDays / 30\<rceil>"
    unfolding pl by (rule f(1))
  have g2: "map importe (CreditSimulation.plan_cuotas sim) =
               installments_of
                 (unrounded_total p (CreditSimulation.tasa_tea sim) (CreditSimulation.plazo_dias sim))
                 (length (CreditSimulation.plan_cuotas sim))"
    unfolding pl tt pd by (rule f(2))
  have g3: "CreditSimulation.monto_total sim =
               of_int (round (unrounded_total p (CreditSimulation.tasa_tea sim)
                                (CreditSimulation.plazo_dias sim)))"
    unfolding mt tt pd by (rule calculateCredit_total)
  have g4: "\<bar>plan_total (CreditSimulation.plan_cuotas sim)
                - unrounded_total p (CreditSimulation.tasa_tea sim) (CreditSimulation.plazo_dias sim)\<bar>
               \<le> 1 / 32"
    unfolding pl tt pd by (rule f(3))
  have g5: "\<bar>plan_total (CreditSimulation.plan_cuotas sim) - CreditSimulation.monto_total sim\<bar> \<le> 1"
    unfolding pl mt calculateCredit_total by (rule f(4))
  show ?thesis
    using sim g1 g2 g3 g4 g5 by blast
qed

lemma normal_schedule:
  assumes "termMonths \<in> {3, 6, 12}" and "\<bar>p\<bar> \<le> 10 ^ 12"
  shows "\<exists>sim. simulateNormalCredit e u p termMonths = Inr sim
           \<and> int (length (CreditSimulation.plan_cuotas sim)) = \<lfloor>termMonths * 30 / 30\<rfloor>
           \<and> map importe (CreditSimulation.plan_cuotas sim) =
               installments_of
                 (unrounded_total p (CreditSimulation.tasa_tea sim) (CreditSimulation.plazo_dias sim))
                 (length (CreditSimulation.plan_cuotas sim))
           \<and> CreditSimulation.monto_total sim =
               of_int (round (unrounded_total p (CreditSimulation.tasa_tea sim)
                                (CreditSimulation.plazo_dias sim)))
           \<and> \<bar>plan_total (CreditSimulation.plan_cuotas sim)
                - unrounded_total p (CreditSimulation.tasa_tea sim) (CreditSimulation.plazo_dias sim)\<bar>
               \<le> 1 / 32
           \<and> \<bar>plan_total (CreditSimulation.plan_cuotas sim) - CreditSimulation.monto_total sim\<bar> \<le> 1"
proof -
  obtain tea where tea: "map_of normalCreditRates termMonths = Some tea"
    and r: "\<bar>fdiv tea 100\<bar> \<le> 2"
    using assms(1) rate_bounds by (auto simp: normalCreditRates_def)
  let ?d = "fmul termMonths 30"
  have n: "(if normal = quick then \<lceil>fdiv ?d 30\<rceil> else \<lfloor>fdiv ?d 30\<rfloor>) = \<lfloor>termMonths * 30 / 30\<rfloor>"
    using assms(1) by (auto simp: fl64_small_values)
  have n1: "1 \<le> \<lfloor>termMonths * 30 / 30\<rfloor>" and n12: "\<lfloor>termMonths * 30 / 30\<rfloor> \<le> 12"
    using assms(1) by auto
  have yf: "\<bar>fdiv ?d 365\<bar> \<le> 1"
    using assms(1) year_fraction_bounds by (auto simp: fl64_small_values)
  let ?c = "calculateCredit e p tea (of_int (round (fmul tea cftMultiplier))) ?d normal"
  obtain sim where sim: "simulateNormalCredit e u p termMonths = Inr sim"
    and pl: "CreditSimulation.plan_cuotas sim = CreditCalculation.plan_cuotas ?c"
    and mt: "CreditSimulation.monto_total sim = CreditCalculation.monto_total ?c"
    and tt: "CreditSimulation.tasa_tea sim = tea"
    and pd: "CreditSimulation.plazo_dias sim = ?d"
    using simulateNormalCredit_fields [OF tea] by blast
  note f = schedule_facts [OF n n1 n12 assms(2) r yf, of e "of_int (round (fmul tea cftMultiplier))"]
  have g1: "int (length (CreditSimulation.plan_cuotas sim)) = \<lfloor>termMonths * 30 / 30\<rfloor>"
    unfolding pl by (rule f(1))
  have g2: "map importe (CreditSimulation.plan_cuotas sim) =
               installments_of
                 (unrounded_total p (CreditSimulation.tasa_tea sim) (CreditSimulation.plazo_dias sim))
                 (length (CreditSimulation.plan_cuotas sim))"
    unfolding pl tt pd by (rule f(2))
  have g3: "CreditSimulation.monto_total sim =
               of_int (round (unrounded_total p (CreditSimulation.tasa_tea sim)
                                (CreditSimulation.plazo_dias sim)))"
    unfolding mt tt pd by (rule calculateCredit_total)
  have g4: "\<bar>plan_total (CreditSimulation.plan_cuotas sim)
                - unrounded_total p (CreditSimulation.tasa_tea sim) (CreditSimulation.plazo_dias sim)\<bar>
               \<le> 1 / 32"
    unfolding pl tt pd by (rule f(3))
  have g5: "\<bar>plan_total (CreditSimulation.plan_cuotas sim) - CreditSimulation.monto_total sim\<bar> \<le> 1"
    unfolding pl mt calculateCredit_total by (rule f(4))
  show ?thesis
    using sim g1 g2 g3 g4 g5 by blast
qed

text \<open>
  Claim C3, as the code has it. For a Quick credit of 30, 60 or 90 days and for a Normal
  credit of 3, 6 or 12 months, with a principal of absolute value at most \<open>10^12\<close>, the
  simulation succeeds and its plan has \<open>ceil(termDays / 30)\<close> installments for Quick and
  \<open>floor(termDays / 30)\<close> for Normal, where \<open>termDays\<close> is thirty times the months.
  Every installment but the last is the unrounded total (principal plus interest plus
  administrative charges) divided by the count, and the last is the unrounded total minus
  the others, each operation in binary64. The reported \<^verbatim>\<open>monto_total\<close> is the
  unrounded total rounded to the nearest integer. The installment amounts sum to the
  unrounded total up to the rounding error of binary64 (at most 1/32 for these principals),
  and so to \<^verbatim>\<open>monto_total\<close> within one unit, not exactly.
\<close>

theorem C3_schedule_sums_within_one_unit:
  "(termDays \<in> {30, 60, 90} \<and> \<bar>p\<bar> \<le> 10 ^ 12 \<longrightarrow>
      (\<exists>sim. simulateQuickCredit e u p termDays = Inr sim
         \<and> int (length (CreditSimulation.plan_cuotas sim)) = \<lceil>termDays / 30\<rceil>
         \<and> map importe (CreditSimulation.plan_cuotas sim) =
             installments_of
               (unrounded_total p (CreditSimulation.tasa_tea sim) (CreditSimulation.plazo_dias sim))
               (length (CreditSimulation.plan_cuotas sim))
         \<and> CreditSimulation.monto_total sim =
             of_int (round (unrounded_total p (CreditSimulation.tasa_tea sim)
                              (CreditSimulation.plazo_dias sim)))
         \<and> \<bar>plan_total (CreditSimulation.plan_cuotas sim)
              - unrounded_total p (CreditSimulation.tasa_tea sim) (CreditSimulation.plazo_dias sim)\<bar>
             \<le> 1 / 32
         \<and> \<bar>plan_total (CreditSimulation.plan_cuotas sim) - CreditSimulation.monto_total sim\<bar> \<le> 1))
   \<and> (termMonths \<in> {3, 6, 12} \<and> \<bar>p\<bar> \<le> 10 ^ 12 \<longrightarrow>
      (\<exists>sim. simulateNormalCredit e u p termMonths = Inr sim
         \<and> int (length (CreditSimulation.plan_cuotas sim)) = \<lfloor>termMonths * 30 / 30\<rfloor>
         \<and> map importe (CreditSimulation.plan_cuotas sim) =
             installments_of
               (unrounded_total p (CreditSimulation.tasa_tea sim) (CreditSimulation.plazo_dias sim))
               (length (CreditSimulation.plan_cuotas sim))
         \<and> CreditSimulation.monto_total sim =
             of_int (round (unrounded_total p (CreditSimulation.tasa_tea sim)
                              (CreditSimulation.plazo_dias sim)))
         \<and> \<bar>plan_total (CreditSimulation.plan_cuotas sim)
              - unrounded_total p (CreditSimulation.tasa_tea sim) (CreditSimulation.plazo_dias sim)\<bar>
             \<le> 1 / 32
         \<and> \<bar>plan_total (CreditSimulation.plan_cuotas sim) - CreditSimulation.monto_total sim\<bar> \<le> 1))"
  using quick_schedule [of termDays p e u] normal_schedule [of termMonths p e u] by blast

theorem C3_schedule_witness:
  "(\<exists>sim. simulateQuickCredit env0 ''u1'' 1000 60 = Inr sim
       \<and> int (length (CreditSimulation.plan_cuotas sim)) = 2
       \<and> map importe (CreditSimulation.plan_cuotas sim) =
           installments_of
             (unrounded_total 1000 (CreditSimulation.tasa_tea sim) (CreditSimulation.plazo_dias sim))
             (length (CreditSimulation.plan_cuotas sim))
       \<and> \<bar>plan_total (CreditSimulation.plan_cuotas sim) - CreditSimulation.monto_total sim\<bar> \<le> 1)
   \<and> (\<exists>sim. simulateNormalCredit env0 ''u1'' 1000 12 = Inr sim
       \<and> int (length (CreditSimulation.plan_cuotas sim)) = 12
       \<and> map importe (CreditSimulation.plan_cuotas sim) =
           installments_of
             (unrounded_total 1000 (CreditSimulation.tasa_tea sim) (CreditSimulation.plazo_dias sim))
             (length (CreditSimulation.plan_cuotas sim))
       \<and> \<bar>plan_total (CreditSimulation.plan_cuotas sim) - CreditSimulation.monto_total sim\<bar> \<le> 1)"
proof -
  have q: "(60::rat) \<in> {30, 60, 90}" and m: "(12::rat) \<in> {3, 6, 12}"
    and b: "\<bar>1000::rat\<bar> \<le> 10 ^ 12"
    by simp_all
  have c: "\<lceil>(60::rat) / 30\<rceil> = 2" and f: "\<lfloor>(12::rat) * 30 / 30\<rfloor> = 12"
    by simp_all
  show ?thesis
    using C3_schedule_sums_within_one_unit [of 60 1000 env0 "''u1''" 12] q m b
    unfolding c f by blast
qed

text \<open>
  The claim as stated fails. A Quick credit of 1000 over 30 days has the single
  installment 2441819521849933 / 2199023255552 (about 1110.41), while
  \<^verbatim>\<open>monto_total\<close> is 1110. A Normal credit of 1000 over 12 months has eleven
  installments of about 163.08219178082192 and a last one of about 163.08219178082186;
  their sum is not \<^verbatim>\<open>monto_total\<close> = 1957, and not the unrounded total
  8606916775018047 / 4398046511104 (about 1956.986301369863) either: the sum of the
  rationals is below it by \<open>2^-44\<close>, and the sum by binary64 additions is
  8606916775018045 / 4398046511104 (about 1956.9863013698625).
\<close>

theorem C3_sum_is_not_monto_total:
  "map_sum id (plan_total \<circ> CreditSimulation.plan_cuotas) (simulateQuickCredit env0 ''u1'' 1000 30)
     = Inr (2441819521849933 / 2199023255552)
   \<and> map_sum id CreditSimulation.monto_total (simulateQuickCredit env0 ''u1'' 1000 30) = Inr 1110
   \<and> map_sum id (plan_total \<circ> CreditSimulation.plan_cuotas) (simulateNormalCredit env0 ''u1'' 1000 12)
     = Inr (34427667100072187 / 17592186044416)
   \<and> map_sum id CreditSimulation.monto_total (simulateNormalCredit env0 ''u1'' 1000 12) = Inr 1957
   \<and> map_sum id (plan_total_binary64 \<circ> CreditSimulation.plan_cuotas)
         (simulateNormalCredit env0 ''u1'' 1000 12)
     = Inr (8606916775018045 / 4398046511104)
   \<and> unrounded_total 1000 95 360 = 8606916775018047 / 4398046511104"
  by code_simp

section \<open>Reading and writing an account\<close>

lemma getUserAccount_eq:
  "getUserAccount u d =
     (case user_accounts d u of
        None \<Rightarrow> (Inl (account_not_found u), d)
      | Some a \<Rightarrow> (Inr a, d))"
  by (simp add: getUserAccount_def bind_def findByUserId_def throw_def ret_def split: option.splits)

lemma getBalance_eq:
  "getBalance u d =
     (case user_accounts d u of
        None \<Rightarrow> (Inl (account_not_found u), d)
      | Some a \<Rightarrow> (Inr (saldo_disponible a), d))"
  by (simp add: getBalance_def UserAccountsRepository_getBalance_def bind_def findByUserId_def
        throw_def ret_def split: option.splits)

lemma update_Some:
  "user_accounts d u = Some a \<Longrightarrow>
     update e u f d =
       (Inr ((f a)\<lparr> UserAccount.fecha_actualizacion := now e \<rparr>),
        d\<lparr> user_accounts := (user_accounts d)(u \<mapsto> (f a)\<lparr> UserAccount.fecha_actualizacion := now e \<rparr>) \<rparr>)"
  by (simp add: update_def Let_def)

lemma update_None:
  "user_accounts d u = None \<Longrightarrow>
     update e u f d = (Inl (DatabaseError ''Failed to update user account''), d)"
  by (simp add: update_def)

lemma balance_inv_update:
  assumes "balance_inv d" and "\<And>a. user_accounts d u = Some a \<Longrightarrow> 0 \<le> saldo_disponible (f a)"
  shows "balance_inv (snd (update e u f d))"
proof (cases "user_accounts d u")
  case None
  then show ?thesis using assms(1) by (simp add: update_None)
next
  case (Some a)
  then show ?thesis
    using assms by (auto simp: update_Some balance_inv_def)
qed

lemma balance_inv_updateBalance:
  "balance_inv d \<Longrightarrow> 0 \<le> nb \<Longrightarrow> balance_inv (snd (updateBalance e u nb d))"
  unfolding updateBalance_def by (rule balance_inv_update) simp_all

lemma balance_inv_bind:
  assumes "balance_inv (snd (m d))"
    and "\<And>x d'. m d = (Inr x, d') \<Longrightarrow> balance_inv (snd (f x d'))"
  shows "balance_inv (snd (bind m f d))"
  using assms by (cases "m d") (auto simp: bind_def split: sum.splits)

lemma balance_inv_addFunds:
  assumes "balance_inv d"
  shows "balance_inv (snd (addFunds e u x d))"
proof (cases "user_accounts d u")
  case None
  then show ?thesis
    using assms by (simp add: addFunds_def bind_def getUserAccount_eq)
next
  case (Some a)
  then have "0 \<le> saldo_disponible a"
    using assms by (simp add: balance_inv_def)
  then show ?thesis
    using assms Some
    by (simp add: addFunds_def bind_def getUserAccount_eq throw_def Let_def balance_inv_updateBalance)
qed

lemma balance_inv_removeFunds:
  assumes "balance_inv d"
  shows "balance_inv (snd (removeFunds e u x d))"
proof (cases "user_accounts d u")
  case None
  then show ?thesis
    using assms by (simp add: removeFunds_def bind_def getUserAccount_eq)
next
  case (Some a)
  then show ?thesis
    using assms
    by (simp add: removeFunds_def bind_def getUserAccount_eq throw_def Let_def balance_inv_updateBalance)
qed

lemma balance_inv_updateAccountBalance:
  assumes "balance_inv d"
  shows "balance_inv (snd (updateAccountBalance e u x d))"
proof (cases "user_accounts d u")
  case None
  then show ?thesis
    using assms by (simp add: updateAccountBalance_def bind_def getUserAccount_eq)
next
  case (Some a)
  then show ?thesis
    using assms
    by (simp add: updateAccountBalance_def bind_def getUserAccount_eq throw_def balance_inv_updateBalance)
qed

lemma removeFunds_insufficient:
  "user_accounts d u = Some a \<Longrightarrow> saldo_disponible a < x \<Longrightarrow>
     \<exists>err. removeFunds e u x d = (Inl err, d)"
  by (simp add: removeFunds_def bind_def getUserAccount_eq throw_def)

lemma user_accounts_updateCredit:
  "user_accounts (snd (updateCredit e c f d)) = user_accounts d"
  by (simp add: updateCredit_def Let_def split: option.splits)

lemma balance_inv_updateCredit:
  "balance_inv d \<Longrightarrow> balance_inv (snd (updateCredit e c f d))"
  by (simp add: balance_inv_def user_accounts_updateCredit)

lemma approve_insufficient:
  "creditos d c = Some cr \<Longrightarrow> user_accounts d (Credit.usuario_id cr) = Some a \<Longrightarrow>
   saldo_disponible a < Credit.monto_solicitado cr \<Longrightarrow>
     approveCreditAndDisburse e c d =
       (Inl (InsufficientFundsError ''Insufficient funds to disburse credit''), d)"
  by (simp add: approveCreditAndDisburse_def bind_def findCreditById_def
        UserAccountsRepository_getBalance_def findByUserId_def ret_def throw_def)

lemma balance_inv_approve:
  assumes "balance_inv d"
  shows "balance_inv (snd (approveCreditAndDisburse e c d))"
proof (cases "creditos d c")
  case None
  then show ?thesis
    using assms by (simp add: approveCreditAndDisburse_def bind_def findCreditById_def throw_def)
next
  case (Some cr)
  show ?thesis
  proof (cases "user_accounts d (Credit.usuario_id cr)")
    case None
    then show ?thesis
      using assms Some
      by (simp add: approveCreditAndDisburse_def bind_def findCreditById_def
            UserAccountsRepository_getBalance_def findByUserId_def throw_def)
  next
    case (Some a)
    show ?thesis
    proof (cases "saldo_disponible a < Credit.monto_solicitado cr")
      case True
      then show ?thesis
        using assms approve_insufficient [OF \<open>creditos d c = Some cr\<close> Some True] by simp
    next
      case False
      then have nb: "0 \<le> saldo_disponible a - Credit.monto_solicitado cr" by simp
      have eq: "approveCreditAndDisburse e c d =
                  bind (updateBalance e (Credit.usuario_id cr)
                          (saldo_disponible a - Credit.monto_solicitado cr))
                       (\<lambda>_. updateCredit e c (\<lambda>c. c\<lparr> Credit.estado := IN_PROGRESS,
                                                      fecha_desembolso := Some (now e) \<rparr>)) d"
        using \<open>creditos d c = Some cr\<close> Some False
        by (simp add: approveCreditAndDisburse_def bind_def findCreditById_def
              UserAccountsRepository_getBalance_def findByUserId_def ret_def Let_def)
      show ?thesis
        unfolding eq
      proof (rule balance_inv_bind)
        show "balance_inv (snd (updateBalance e (Credit.usuario_id cr)
                 (saldo_disponible a - Credit.monto_solicitado cr) d))"
          using assms nb by (rule balance_inv_updateBalance)
      next
        fix x d'
        assume "updateBalance e (Credit.usuario_id cr)
                  (saldo_disponible a - Credit.monto_solicitado cr) d = (Inr x, d')"
        then have "balance_inv d'"
          using balance_inv_updateBalance [OF assms nb, of e "Credit.usuario_id cr"] by simp
        then show "balance_inv (snd (updateCredit e c (\<lambda>c. c\<lparr> Credit.estado := IN_PROGRESS,
                                        fecha_desembolso := Some (now e) \<rparr>) d'))"
          by (rule balance_inv_updateCredit)
      qed
    qed
  qed
qed

section \<open>The balance invariant\<close>

lemma inv_bind:
  assumes "\<And>d. balance_inv d \<Longrightarrow> balance_inv (snd (m d))"
    and "\<And>x d. balance_inv d \<Longrightarrow> balance_inv (snd (f x d))"
    and "balance_inv d"
  shows "balance_inv (snd (bind m f d))"
proof (rule balance_inv_bind)
  show "balance_inv (snd (m d))" using assms(1,3) by blast
next
  fix x d'
  assume "m d = (Inr x, d')"
  then have "balance_inv d'" using assms(1) [OF assms(3)] by simp
  then show "balance_inv (snd (f x d'))" by (rule assms(2))
qed

lemma inv_ret: "balance_inv d \<Longrightarrow> balance_inv (snd (ret x d))"
  by (simp add: ret_def)

lemma inv_throw: "balance_inv d \<Longrightarrow> balance_inv (snd (throw x d))"
  by (simp add: throw_def)

lemma inv_getBalance: "balance_inv d \<Longrightarrow> balance_inv (snd (getBalance u d))"
  by (simp add: getBalance_eq split: option.splits)

lemma balance_inv_transferFunds_try:
  assumes "balance_inv d"
  shows "balance_inv (snd (transferFunds_try e f t x d))"
  unfolding transferFunds_try_def
proof (rule inv_bind [OF _ _ assms])
  fix d' assume "balance_inv d'"
  then show "balance_inv (snd (getBalance f d'))" by (rule inv_getBalance)
next
  fix b d' assume inv: "balance_inv d'"
  show "balance_inv (snd ((if b < x
            then ret \<lparr> BankingAPIResponse.exito = False, transaccion_id = None, monto = x,
                       fecha = now e, saldo_resultante = b,
                       razon_fallo = Some ''Sender has insufficient balance'' \<rparr>
            else bind (removeFunds e f x) (\<lambda>senderUpdated.
                   bind (addFunds e t x) (\<lambda>recipientUpdated.
                     ret \<lparr> BankingAPIResponse.exito = True, transaccion_id = Some (uuidv4 e 0),
                           monto = x, fecha = now e,
                           saldo_resultante = saldo_disponible senderUpdated,
                           razon_fallo = None \<rparr>))) d'))"
  proof (cases "b < x")
    case True
    then show ?thesis using inv by (simp add: inv_ret)
  next
    case False
    have "balance_inv (snd (bind (removeFunds e f x) (\<lambda>senderUpdated.
                   bind (addFunds e t x) (\<lambda>recipientUpdated.
                     ret \<lparr> BankingAPIResponse.exito = True, transaccion_id = Some (uuidv4 e 0),
                           monto = x, fecha = now e,
                           saldo_resultante = saldo_disponible senderUpdated,
                           razon_fallo = None \<rparr>)) d'))"
    proof (rule inv_bind [OF _ _ inv])
      fix d1 assume "balance_inv d1"
      then show "balance_inv (snd (removeFunds e f x d1))" by (rule balance_inv_removeFunds)
    next
      fix s :: UserAccount and d1 assume i1: "balance_inv d1"
      show "balance_inv (snd (bind (addFunds e t x) (\<lambda>recipientUpdated.
                     ret \<lparr> BankingAPIResponse.exito = True, transaccion_id = Some (uuidv4 e 0),
                           monto = x, fecha = now e,
                           saldo_resultante = saldo_disponible s,
                           razon_fallo = None \<rparr>) d1))"
      proof (rule inv_bind [OF _ _ i1])
        fix d2 assume "balance_inv d2"
        then show "balance_inv (snd (addFunds e t x d2))" by (rule balance_inv_addFunds)
      next
        fix r :: UserAccount and d2 assume "balance_inv d2"
        then show "balance_inv (snd (ret \<lparr> BankingAPIResponse.exito = True,
                           transaccion_id = Some (uuidv4 e 0),
                           monto = x, fecha = now e,
                           saldo_resultante = saldo_disponible s,
                           razon_fallo = None \<rparr> d2))" by (rule inv_ret)
      qed
    qed
    then show ?thesis using False by simp
  qed
qed

lemma balance_inv_transferFunds:
  assumes "balance_inv d"
  shows "balance_inv (snd (transferFunds e f t x d))"
proof (cases "transferFunds_try e f t x d")
  case (Pair r d')
  then have "balance_inv d'"
    using balance_inv_transferFunds_try [OF assms, of e f t x] by simp
  then show ?thesis
    using Pair by (cases r) (simp_all add: transferFunds_def)
qed

lemma snd_handleTransfer:
  "snd (handleTransfer e body d) = d
   \<or> (\<exists>u c x. snd (handleTransfer e body d) = snd (transferFunds e u c x d))"
proof (cases "falsy_string (TransferBody.usuario_id body) \<or> falsy_number (monto_destino body)
         \<or> falsy_string (TransferBody.cuenta_destino body)
         \<or> the (monto_destino body) \<le> 0")
  case True
  then show ?thesis
    by (auto simp: handleTransfer_def Let_def throw_def)
next
  case False
  let ?u = "the (TransferBody.usuario_id body)"
  let ?x = "the (monto_destino body)"
  let ?c = "the (TransferBody.cuenta_destino body)"
  show ?thesis
  proof (cases "user_accounts d ?u")
    case None
    then show ?thesis
      using False by (simp add: handleTransfer_def Let_def bind_def getBalance_eq)
  next
    case (Some a)
    show ?thesis
    proof (cases "saldo_disponible a \<ge> ?x")
      case True
      obtain r d' where t: "transferFunds e ?u ?c ?x d = (r, d')"
        by (cases "transferFunds e ?u ?c ?x d")
      have "snd (handleTransfer e body d) = d'"
        using False Some True t
        by (cases r) (simp_all add: handleTransfer_def Let_def bind_def getBalance_eq throw_def ret_def)
      then show ?thesis using t by (metis snd_conv)
    next
      case False2: False
      have "snd (handleTransfer e body d) = d"
        using False Some False2
        by (simp add: handleTransfer_def Let_def bind_def getBalance_eq throw_def ret_def
              split: sum.splits)
      then show ?thesis by simp
    qed
  qed
qed

lemma balance_inv_handleTransfer:
  assumes "balance_inv d"
  shows "balance_inv (snd (handleTransfer e body d))"
  using snd_handleTransfer [of e body d] assms balance_inv_transferFunds [OF assms]
  by auto

text \<open>
  Claim C2. Starting from a store in which no account has a negative available balance,
  \<^verbatim>\<open>addFunds\<close>, \<^verbatim>\<open>removeFunds\<close>, \<^verbatim>\<open>updateAccountBalance\<close>, the disbursement
  \<^verbatim>\<open>approveCreditAndDisburse\<close> and the transfer execution (\<^verbatim>\<open>transferFunds\<close> and
  the endpoint \<^verbatim>\<open>handleTransfer\<close>) leave a store with the same property, whatever they
  return. Removing more than the balance, and disbursing a credit whose principal exceeds
  the balance, fail and leave the whole store as it was.
\<close>

theorem C2_balance_never_negative:
  assumes "balance_inv d"
  shows "balance_inv (snd (addFunds e u x d))
       \<and> balance_inv (snd (removeFunds e u x d))
       \<and> balance_inv (snd (updateAccountBalance e u x d))
       \<and> balance_inv (snd (approveCreditAndDisburse e c d))
       \<and> balance_inv (snd (transferFunds e u v x d))
       \<and> balance_inv (snd (handleTransfer e body d))
       \<and> (\<forall>a. user_accounts d u = Some a \<and> saldo_disponible a < x
              \<longrightarrow> (\<exists>err. removeFunds e u x d = (Inl err, d)))
       \<and> (\<forall>cr a. creditos d c = Some cr \<and> user_accounts d (Credit.usuario_id cr) = Some a
                 \<and> saldo_disponible a < Credit.monto_solicitado cr
              \<longrightarrow> approveCreditAndDisburse e c d =
                    (Inl (InsufficientFundsError ''Insufficient funds to disburse credit''), d))"
proof (intro conjI allI impI)
  show "balance_inv (snd (addFunds e u x d))"
    using assms by (rule balance_inv_addFunds)
  show "balance_inv (snd (removeFunds e u x d))"
    using assms by (rule balance_inv_removeFunds)
  show "balance_inv (snd (updateAccountBalance e u x d))"
    using assms by (rule balance_inv_updateAccountBalance)
  show "balance_inv (snd (approveCreditAndDisburse e c d))"
    using assms by (rule balance_inv_approve)
  show "balance_inv (snd (transferFunds e u v x d))"
    using assms by (rule balance_inv_transferFunds)
  show "balance_inv (snd (handleTransfer e body d))"
    using assms by (rule balance_inv_handleTransfer)
next
  fix a
  assume "user_accounts d u = Some a \<and> saldo_disponible a < x"
  then show "\<exists>err. removeFunds e u x d = (Inl err, d)"
    using removeFunds_insufficient [of d u a x e] by simp
next
  fix cr a
  assume "creditos d c = Some cr \<and> user_accounts d (Credit.usuario_id cr) = Some a
            \<and> saldo_disponible a < Credit.monto_solicitado cr"
  then show "approveCreditAndDisburse e c d =
               (Inl (InsufficientFundsError ''Insufficient funds to disburse credit''), d)"
    using approve_insufficient [of d c cr a e] by simp
qed

lemma balance_inv_db0: "balance_inv db0"
  by (auto simp: balance_inv_def db0_def cuenta_u1_def cuenta_u2_def split: if_splits)

theorem C2_balance_witness:
  "balance_inv db0
   \<and> balance_inv (snd (addFunds env0 ''u2'' 600 db0))
   \<and> balance_inv (snd (removeFunds env0 ''u2'' 600 db0))
   \<and> balance_inv (snd (updateAccountBalance env0 ''u2'' 600 db0))
   \<and> balance_inv (snd (approveCreditAndDisburse env0 ''c2'' db0))
   \<and> balance_inv (snd (transferFunds env0 ''u2'' ''u1'' 600 db0))
   \<and> balance_inv (snd (handleTransfer env0 pedido_u1_15000 db0))
   \<and> (\<exists>err. removeFunds env0 ''u2'' 600 db0 = (Inl err, db0))
   \<and> approveCreditAndDisburse env0 ''c2'' db0 =
       (Inl (InsufficientFundsError ''Insufficient funds to disburse credit''), db0)"
proof -
  have acc: "user_accounts db0 ''u2'' = Some cuenta_u2"
    and cr: "creditos db0 ''c2'' = Some credito_c2"
    and own: "Credit.usuario_id credito_c2 = ''u2''"
    and low: "saldo_disponible cuenta_u2 < 600"
    and low2: "saldo_disponible cuenta_u2 < Credit.monto_solicitado credito_c2"
    by (simp_all add: db0_def cuenta_u2_def credito_c2_def)
  note main = C2_balance_never_negative [OF balance_inv_db0, of env0 "''u2''" 600 "''c2''" "''u1''"
            pedido_u1_15000]
  have r: "\<exists>err. removeFunds env0 ''u2'' 600 db0 = (Inl err, db0)"
    using main acc low by blast
  have a: "approveCreditAndDisburse env0 ''c2'' db0 =
             (Inl (InsufficientFundsError ''Insufficient funds to disburse credit''), db0)"
    using main cr acc low2 unfolding own [symmetric] by blast
  show ?thesis
    using main balance_inv_db0 r a by blast
qed

section \<open>Disbursing a credit twice\<close>






section \<open>Confirming a password reset\<close>

lemma validatePasswordResetToken_invalid:
  "token_invalid e d tok \<Longrightarrow> validatePasswordResetToken e tok d = (Inr False, d)"
  by (auto simp: token_invalid_def validatePasswordResetToken_def split: option.splits)

lemma reset_short_password:
  "length pw < 8 \<Longrightarrow>
     updatePasswordWithResetToken e tok pw d =
       (Inl (ValidationError ''Password must be at least 8 characters long''), d)"
  by (simp add: updatePasswordWithResetToken_def throw_def)

lemma reset_invalid_token:
  "token_invalid e d tok \<Longrightarrow> 8 \<le> length pw \<Longrightarrow>
     updatePasswordWithResetToken e tok pw d =
       (Inl (ValidationError ''Invalid or expired password reset token''), d)"
  by (auto simp: updatePasswordWithResetToken_def throw_def bind_def
        validatePasswordResetToken_invalid)

text \<open>
  Claim C6, as the code has it. \<^verbatim>\<open>updatePasswordWithResetToken\<close> checks the format of
  the new password first and the token second. A new password shorter than 8 characters
  fails with the password-format error whatever the token is; with a token that is
  unknown, used or expired and a new password of at least 8 characters the confirmation
  fails with the invalid-token error. In both cases the store is unchanged.
\<close>

theorem C6_password_format_checked_before_token:
  "(length pw < 8 \<longrightarrow>
      updatePasswordWithResetToken e tok pw d =
        (Inl (ValidationError ''Password must be at least 8 characters long''), d))
   \<and> (token_invalid e d tok \<and> 8 \<le> length pw \<longrightarrow>
      updatePasswordWithResetToken e tok pw d =
        (Inl (ValidationError ''Invalid or expired password reset token''), d))"
  using reset_short_password [of pw e tok d] reset_invalid_token [of e d tok pw] by blast

lemma token_invalid_tok1: "token_invalid env0 db0 ''tok1''"
  by (simp add: token_invalid_def db0_def token_vencido_def env0_def)

theorem C6_reset_witness:
  "updatePasswordWithResetToken env0 ''tok1'' ''abc'' db0 =
     (Inl (ValidationError ''Password must be at least 8 characters long''), db0)
   \<and> token_invalid env0 db0 ''tok1''
   \<and> updatePasswordWithResetToken env0 ''tok1'' ''correct horse'' db0 =
     (Inl (ValidationError ''Invalid or expired password reset token''), db0)"
proof -
  have s: "length ''abc'' < 8" and l: "8 \<le> length ''correct horse''"
    by simp_all
  show ?thesis
    using C6_password_format_checked_before_token [of "''abc''" env0 "''tok1''" db0]
      C6_password_format_checked_before_token [of "''correct horse''" env0 "''tok1''" db0]
      token_invalid_tok1 s l
    by blast
qed

text \<open>
  The claim as stated fails: with the expired token \<open>tok1\<close> and the new password
  \<open>short\<close> the confirmation fails with the password-format error, not with the
  invalid-token one.
\<close>

theorem C6_expired_token_short_password:
  "token_invalid env0 db0 ''tok1''
   \<and> fst (updatePasswordWithResetToken env0 ''tok1'' ''short'' db0) =
       Inl (ValidationError ''Password must be at least 8 characters long'')
   \<and> fst (updatePasswordWithResetToken env0 ''tok1'' ''short'' db0) \<noteq>
       Inl (ValidationError ''Invalid or expired password reset token'')"
  by (simp add: token_invalid_tok1 updatePasswordWithResetToken_def throw_def)

section \<open>KYC approval\<close>

lemma getKYCDocuments_Some:
  "user_accounts d u = Some a \<Longrightarrow>
     \<exists>docs. getKYCDocuments u d = (Inr docs, d)
       \<and> set docs = {k \<in> set (kyc_documents d). KYCDocument.usuario_id k = u}"
  by (auto simp: getKYCDocuments_def bind_def getUserAccount_eq
        UserAccountsRepository_getKYCDocuments_def)

lemma has_document_iff:
  "set docs = {k \<in> set (kyc_documents d). KYCDocument.usuario_id k = u} \<Longrightarrow>
     list_ex (\<lambda>k. KYCDocument.tipo_documento k = t) docs = has_document d u t"
  by (auto simp: has_document_def list_ex_iff)

lemma updateKYCStatus_approve:
  "user_accounts d u = Some a \<Longrightarrow>
     updateKYCStatus e u APROBADO r d =
       (Inr (a\<lparr> kyc_status := Some APROBADO, UserAccount.kyc_completo := True,
               limite_transferencia := Some 50000,
               UserAccount.fecha_actualizacion := now e \<rparr>),
        d\<lparr> user_accounts := (user_accounts d)(u \<mapsto>
              a\<lparr> kyc_status := Some APROBADO, UserAccount.kyc_completo := True,
                 limite_transferencia := Some 50000,
                 UserAccount.fecha_actualizacion := now e \<rparr>) \<rparr>)"
  by (simp add: updateKYCStatus_def update_Some)

lemma approveKYC_ok:
  assumes "user_accounts d u = Some a"
    and "has_document d u dni" and "has_document d u selfie"
  shows "approveKYC e u d =
       (Inr (a\<lparr> kyc_status := Some APROBADO, UserAccount.kyc_completo := True,
               limite_transferencia := Some 50000,
               UserAccount.fecha_actualizacion := now e \<rparr>),
        d\<lparr> user_accounts := (user_accounts d)(u \<mapsto>
              a\<lparr> kyc_status := Some APROBADO, UserAccount.kyc_completo := True,
                 limite_transferencia := Some 50000,
                 UserAccount.fecha_actualizacion := now e \<rparr>) \<rparr>)"
proof -
  obtain docs where g: "getKYCDocuments u d = (Inr docs, d)"
    and s: "set docs = {k \<in> set (kyc_documents d). KYCDocument.usuario_id k = u}"
    using getKYCDocuments_Some [OF assms(1)] by blast
  have h: "list_ex (\<lambda>k. KYCDocument.tipo_documento k = dni) docs"
    "list_ex (\<lambda>k. KYCDocument.tipo_documento k = selfie) docs"
    using assms(2,3) has_document_iff [OF s] by simp_all
  show ?thesis
    using h
    by (simp add: approveKYC_def bind_def g Let_def updateKYCStatus_approve [OF assms(1)]
          UserAccountsRepository_updateTransferLimit_def update_Some ret_def)
qed

lemma approveKYC_missing:
  assumes "user_accounts d u = Some a"
    and "\<not> (has_document d u dni \<and> has_document d u selfie)"
  shows "approveKYC e u d =
       (Inl (ValidationError ''User must upload DNI and selfie photos for KYC approval''), d)"
proof -
  obtain docs where g: "getKYCDocuments u d = (Inr docs, d)"
    and s: "set docs = {k \<in> set (kyc_documents d). KYCDocument.usuario_id k = u}"
    using getKYCDocuments_Some [OF assms(1)] by blast
  have h: "\<not> list_ex (\<lambda>k. KYCDocument.tipo_documento k = dni) docs
           \<or> \<not> list_ex (\<lambda>k. KYCDocument.tipo_documento k = selfie) docs"
    using assms(2) has_document_iff [OF s] by simp
  show ?thesis
    using h by (auto simp: approveKYC_def bind_def g Let_def throw_def)
qed

text \<open>
  Claim C7. For a user with an account, \<^verbatim>\<open>approveKYC\<close> succeeds exactly when a
  \<^verbatim>\<open>dni\<close> document and a \<^verbatim>\<open>selfie\<close> document of the user are on file, whatever
  the validation state of the documents. On success the stored account has
  \<^verbatim>\<open>kyc_status\<close> approved, \<^verbatim>\<open>kyc_completo\<close> set and the transfer limit 50000, and
  the single update of \<^verbatim>\<open>updateKYCStatus\<close> already writes the status and the limit
  together. With either document missing the call fails and the store is unchanged.
\<close>

theorem C7_kyc_approval_needs_dni_and_selfie:
  assumes "user_accounts d u = Some a"
  shows "(has_document d u dni \<and> has_document d u selfie \<longrightarrow>
           (\<exists>a' d'. approveKYC e u d = (Inr a', d')
              \<and> user_accounts d' u = Some a'
              \<and> kyc_status a' = Some APROBADO
              \<and> UserAccount.kyc_completo a'
              \<and> limite_transferencia a' = Some 50000))
       \<and> (\<not> (has_document d u dni \<and> has_document d u selfie) \<longrightarrow>
           approveKYC e u d =
             (Inl (ValidationError ''User must upload DNI and selfie photos for KYC approval''), d))
       \<and> (\<exists>a1 d1. updateKYCStatus e u APROBADO None d = (Inr a1, d1)
              \<and> user_accounts d1 u = Some a1
              \<and> kyc_status a1 = Some APROBADO
              \<and> limite_transferencia a1 = Some 50000)"
proof (intro conjI impI)
  assume "has_document d u dni \<and> has_document d u selfie"
  then show "\<exists>a' d'. approveKYC e u d = (Inr a', d')
              \<and> user_accounts d' u = Some a'
              \<and> kyc_status a' = Some APROBADO
              \<and> UserAccount.kyc_completo a'
              \<and> limite_transferencia a' = Some 50000"
    using approveKYC_ok [OF assms, of e] by simp
next
  assume "\<not> (has_document d u dni \<and> has_document d u selfie)"
  then show "approveKYC e u d =
             (Inl (ValidationError ''User must upload DNI and selfie photos for KYC approval''), d)"
    using approveKYC_missing [OF assms] by blast
next
  show "\<exists>a1 d1. updateKYCStatus e u APROBADO None d = (Inr a1, d1)
              \<and> user_accounts d1 u = Some a1
              \<and> kyc_status a1 = Some APROBADO
              \<and> limite_transferencia a1 = Some 50000"
    using updateKYCStatus_approve [OF assms, of e None] by simp
qed

theorem C7_kyc_witness:
  "(\<exists>a' d'. approveKYC env0 ''u1'' db0 = (Inr a', d')
       \<and> user_accounts d' ''u1'' = Some a'
       \<and> kyc_status a' = Some APROBADO
       \<and> UserAccount.kyc_completo a'
       \<and> limite_transferencia a' = Some 50000)
   \<and> \<not> has_document db0 ''u2'' selfie
   \<and> approveKYC env0 ''u2'' db0 =
       (Inl (ValidationError ''User must upload DNI and selfie photos for KYC approval''), db0)"
proof -
  have a1: "user_accounts db0 ''u1'' = Some cuenta_u1"
    and a2: "user_accounts db0 ''u2'' = Some cuenta_u2"
    by (simp_all add: db0_def)
  have h1: "has_document db0 ''u1'' dni \<and> has_document db0 ''u1'' selfie"
    by (simp add: has_document_def db0_def documento_dni_def documento_selfie_def
          documento_dni_u2_def)
  have h2: "\<not> has_document db0 ''u2'' selfie"
    by (simp add: has_document_def db0_def documento_dni_def documento_selfie_def
          documento_dni_u2_def)
  show ?thesis
    using C7_kyc_approval_needs_dni_and_selfie [OF a1, of env0]
      C7_kyc_approval_needs_dni_and_selfie [OF a2, of env0] h1 h2
    by blast
qed

section \<open>Login attempts and the lock\<close>

lemma isAccountBlocked_unlocked:
  "user_accounts d u = Some a \<Longrightarrow> \<not> bloqueado a \<Longrightarrow>
     UserAccountsRepository_isAccountBlocked e u d = (Inr False, d)"
  by (simp add: UserAccountsRepository_isAccountBlocked_def bind_def findByUserId_def ret_def)

lemma isAccountBlocked_locked:
  "user_accounts d u = Some a \<Longrightarrow> bloqueado a \<Longrightarrow>
   (\<forall>t. fecha_proximo_intento a = Some t \<longrightarrow> now e < t) \<Longrightarrow>
     UserAccountsRepository_isAccountBlocked e u d = (Inr True, d)"
  by (auto simp: UserAccountsRepository_isAccountBlocked_def bind_def findByUserId_def ret_def
        split: option.splits)

lemma isAccountBlocked_expired:
  "user_accounts d u = Some a \<Longrightarrow> bloqueado a \<Longrightarrow>
   fecha_proximo_intento a = Some t \<Longrightarrow> t \<le> now e \<Longrightarrow>
     UserAccountsRepository_isAccountBlocked e u d =
       (Inr False,
        d\<lparr> user_accounts := (user_accounts d)(u \<mapsto>
              a\<lparr> bloqueado := False, intentos_fallidos := 0,
                 UserAccount.fecha_actualizacion := now e \<rparr>) \<rparr>)"
  by (simp add: UserAccountsRepository_isAccountBlocked_def bind_def findByUserId_def ret_def
        UserAccountsRepository_unblockAccount_def update_Some)

lemma getPasswordHash_Some:
  "user_accounts d u = Some a \<Longrightarrow> password_hash a = Some h \<Longrightarrow> h \<noteq> [] \<Longrightarrow>
     getPasswordHash u d = (Inr (Some h), d)"
  by (simp add: getPasswordHash_def bind_def findByUserId_def ret_def)

lemma recordFailedLoginAttempt_Some:
  "user_accounts d u = Some a \<Longrightarrow>
     recordFailedLoginAttempt e u d =
       (let a' = (if 5 \<le> intentos_fallidos a + 1
                  then a\<lparr> intentos_fallidos := intentos_fallidos a + 1, bloqueado := True,
                          fecha_proximo_intento := Some (now e + 60 * 60 * 1000),
                          UserAccount.fecha_actualizacion := now e \<rparr>
                  else a\<lparr> intentos_fallidos := intentos_fallidos a + 1,
                          UserAccount.fecha_actualizacion := now e \<rparr>)
        in (Inr a', d\<lparr> user_accounts := (user_accounts d)(u \<mapsto> a') \<rparr>))"
  by (simp add: recordFailedLoginAttempt_def bind_def findByUserId_def Let_def update_Some)

lemma login_locked:
  assumes "user_accounts d u = Some a" and "bloqueado a"
    and "\<forall>t. fecha_proximo_intento a = Some t \<longrightarrow> now e < t"
  shows "validateCredentials e u pw d =
           (Inl (ValidationError ''Account is temporarily locked. Try again later.''), d)"
  by (simp add: validateCredentials_def bind_def isAccountBlocked_locked [OF assms] throw_def)

lemma login_failed:
  assumes "user_accounts d u = Some a" and "\<not> bloqueado a"
    and "password_hash a = Some h" and "h \<noteq> []" and "\<not> verifyPassword e pw h"
  shows "\<exists>a' d'. validateCredentials e u pw d = (Inl (UnauthorizedError ''Invalid credentials''), d')
           \<and> user_accounts d' u = Some a'
           \<and> intentos_fallidos a' = intentos_fallidos a + 1
           \<and> (5 \<le> intentos_fallidos a + 1 \<longrightarrow>
                 bloqueado a' \<and> fecha_proximo_intento a' = Some (now e + 60 * 60 * 1000))
           \<and> (intentos_fallidos a + 1 < 5 \<longrightarrow>
                 \<not> bloqueado a' \<and> fecha_proximo_intento a' = fecha_proximo_intento a)"
  using assms(2,5)
  by (simp add: validateCredentials_def bind_def isAccountBlocked_unlocked [OF assms(1,2)]
        getPasswordHash_Some [OF assms(1,3,4)] recordFailedLoginAttempt_Some [OF assms(1)]
        Let_def throw_def)

lemma login_succeeded:
  assumes "user_accounts d u = Some a" and "\<not> bloqueado a"
    and "password_hash a = Some h" and "h \<noteq> []" and "verifyPassword e pw h"
  shows "\<exists>a' d'. validateCredentials e u pw d = (Inr True, d')
           \<and> user_accounts d' u = Some a'
           \<and> intentos_fallidos a' = 0
           \<and> \<not> bloqueado a'"
  using assms(2,5)
  by (simp add: validateCredentials_def bind_def isAccountBlocked_unlocked [OF assms(1,2)]
        getPasswordHash_Some [OF assms(1,3,4)] resetFailedLoginAttempts_def
        update_Some [OF assms(1)]
        Let_def ret_def)

lemma status_check_clears_expired_lock:
  assumes "user_accounts d u = Some a" and "bloqueado a"
    and "fecha_proximo_intento a = Some t" and "t \<le> now e"
  shows "\<exists>a' d'. isAccountBlocked e u d = (Inr False, d')
           \<and> user_accounts d' u = Some a'
           \<and> \<not> bloqueado a'
           \<and> intentos_fallidos a' = 0"
  by (simp add: isAccountBlocked_def isAccountBlocked_expired [OF assms])

lemma login_after_expiry:
  assumes "user_accounts d u = Some a" and "bloqueado a"
    and "fecha_proximo_intento a = Some t" and "t \<le> now e"
    and "password_hash a = Some h" and "h \<noteq> []" and "verifyPassword e pw h"
  shows "validateCredentials e u pw d =
           (Inr True,
            d\<lparr> user_accounts := (user_accounts d)(u \<mapsto>
                 a\<lparr> bloqueado := False, intentos_fallidos := 0,
                    UserAccount.fecha_actualizacion := now e \<rparr>) \<rparr>)"
  using assms(5,6,7)
  by (simp add: validateCredentials_def bind_def isAccountBlocked_expired [OF assms(1-4)]
        getPasswordHash_def findByUserId_def resetFailedLoginAttempts_def update_def
        Let_def ret_def)

lemma login_keeps_expiry:
  assumes "user_accounts d u = Some a" and "\<not> bloqueado a"
    and "password_hash a = Some h" and "h \<noteq> []" and "verifyPassword e pw h"
  shows "validateCredentials e u pw d =
           (Inr True,
            d\<lparr> user_accounts := (user_accounts d)(u \<mapsto>
                 a\<lparr> intentos_fallidos := 0, UserAccount.fecha_actualizacion := now e \<rparr>) \<rparr>)"
  using assms(2,5)
  by (simp add: validateCredentials_def bind_def isAccountBlocked_unlocked [OF assms(1,2)]
        getPasswordHash_Some [OF assms(1,3,4)] resetFailedLoginAttempts_def
        update_Some [OF assms(1)] Let_def ret_def)

lemma blockAccount_Some:
  "user_accounts d u = Some a \<Longrightarrow>
     UserAccountsRepository_blockAccount e u d =
       (Inr (a\<lparr> bloqueado := True, UserAccount.fecha_actualizacion := now e \<rparr>),
        d\<lparr> user_accounts := (user_accounts d)(u \<mapsto>
             a\<lparr> bloqueado := True, UserAccount.fecha_actualizacion := now e \<rparr>) \<rparr>)"
  by (simp add: UserAccountsRepository_blockAccount_def update_Some)

lemma db_tras_login_u2:
  "user_accounts db_tras_login ''u2'' =
     Some (cuenta_u2\<lparr> bloqueado := False, intentos_fallidos := 0,
             UserAccount.fecha_actualizacion := 1700003600000 \<rparr>)"
proof -
  have "validateCredentials env_tras_vencimiento ''u2'' ''hunter22'' db0 =
          (Inr True,
           db0\<lparr> user_accounts := (user_accounts db0)(''u2'' \<mapsto>
                 cuenta_u2\<lparr> bloqueado := False, intentos_fallidos := 0,
                    UserAccount.fecha_actualizacion := now env_tras_vencimiento \<rparr>) \<rparr>)"
    by (rule login_after_expiry [where t = 1700000600000 and h = "''salt.hunter22''"])
       (simp_all add: db0_def cuenta_u2_def env_tras_vencimiento_def env0_def)
  then show ?thesis
    by (simp add: db_tras_login_def env_tras_vencimiento_def)
qed

lemma db_bloqueo_manual_u2:
  "user_accounts db_bloqueo_manual ''u2'' =
     Some (cuenta_u2\<lparr> bloqueado := True, intentos_fallidos := 0,
             UserAccount.fecha_actualizacion := 1700003600000 \<rparr>)"
  by (simp add: db_bloqueo_manual_def blockAccount_Some [OF db_tras_login_u2]
        env_tras_vencimiento_def)

text \<open>
  Claim C5 fails at the clearing of the lock. The counter, the lock at the fifth failure,
  the rejection on a locked account and the reset of the counter are as the claim says
  (\<open>login_failed\<close>, \<open>login_locked\<close>, \<open>login_succeeded\<close>,
  \<open>status_check_clears_expired_lock\<close>). But \<^verbatim>\<open>resetFailedLoginAttempts\<close> and
  \<^verbatim>\<open>unblockAccount\<close> both write \<^verbatim>\<open>fecha_proximo_intento: undefined\<close>, a key that
  the update drops, so the expiry of the lock is never cleared.

  On the account \<open>u1\<close> with four failures, not locked, and the expiry of an earlier lock
  still stored, the login with the right password succeeds and sets the counter to 0, and
  the expiry is still there.

  On the account \<open>u2\<close>, locked after five failures until 1700000600000, the login with
  the right password one hour after that succeeds: the status check unlocks the account
  and the success resets the counter, and the expiry is still there. When the account is
  then blocked with \<^verbatim>\<open>blockAccount\<close>, the next status check finds the old expiry,
  answers that the account is not locked and unlocks it.
\<close>

theorem C5_lock_expiry_is_never_cleared:
  "validateCredentials env0 ''u1'' ''secret'' db_expiry_left =
     (Inr True,
      db_expiry_left\<lparr> user_accounts := (user_accounts db_expiry_left)(''u1'' \<mapsto>
        cuenta_u1\<lparr> intentos_fallidos := 0,
                  fecha_proximo_intento := Some 1699990000000,
                  UserAccount.fecha_actualizacion := 1700000000000 \<rparr>) \<rparr>)
   \<and> fst (validateCredentials env_tras_vencimiento ''u2'' ''hunter22'' db0) = Inr True
   \<and> user_accounts db_tras_login ''u2'' =
       Some (cuenta_u2\<lparr> bloqueado := False, intentos_fallidos := 0,
               fecha_proximo_intento := Some 1700000600000,
               UserAccount.fecha_actualizacion := 1700003600000 \<rparr>)
   \<and> map_option bloqueado (user_accounts db_bloqueo_manual ''u2'') = Some True
   \<and> fst (isAccountBlocked env_tras_vencimiento ''u2'' db_bloqueo_manual) = Inr False
   \<and> map_option bloqueado
       (user_accounts (snd (isAccountBlocked env_tras_vencimiento ''u2'' db_bloqueo_manual)) ''u2'')
       = Some False"
proof -
  have a: "user_accounts db_expiry_left ''u1'' =
             Some (cuenta_u1\<lparr> fecha_proximo_intento := Some 1699990000000 \<rparr>)"
    by (simp add: db_expiry_left_def)
  have "validateCredentials env0 ''u1'' ''secret'' db_expiry_left =
     (Inr True,
      db_expiry_left\<lparr> user_accounts := (user_accounts db_expiry_left)(''u1'' \<mapsto>
        (cuenta_u1\<lparr> fecha_proximo_intento := Some 1699990000000 \<rparr>)
          \<lparr> intentos_fallidos := 0, UserAccount.fecha_actualizacion := now env0 \<rparr>) \<rparr>)"
    by (rule login_keeps_expiry [OF a, where h = "''salt.secret''"])
       (simp_all add: cuenta_u1_def env0_def)
  then have c1: "validateCredentials env0 ''u1'' ''secret'' db_expiry_left =
     (Inr True,
      db_expiry_left\<lparr> user_accounts := (user_accounts db_expiry_left)(''u1'' \<mapsto>
        cuenta_u1\<lparr> intentos_fallidos := 0,
                  fecha_proximo_intento := Some 1699990000000,
                  UserAccount.fecha_actualizacion := 1700000000000 \<rparr>) \<rparr>)"
    by (simp add: env0_def cuenta_u1_def)
  have c2: "fst (validateCredentials env_tras_vencimiento ''u2'' ''hunter22'' db0) = Inr True"
    by (subst login_after_expiry [where a = cuenta_u2 and t = 1700000600000
          and h = "''salt.hunter22''"])
       (simp_all add: db0_def cuenta_u2_def env_tras_vencimiento_def env0_def)
  have c3: "user_accounts db_tras_login ''u2'' =
       Some (cuenta_u2\<lparr> bloqueado := False, intentos_fallidos := 0,
               fecha_proximo_intento := Some 1700000600000,
               UserAccount.fecha_actualizacion := 1700003600000 \<rparr>)"
    by (simp add: db_tras_login_u2 cuenta_u2_def)
  have c4: "map_option bloqueado (user_accounts db_bloqueo_manual ''u2'') = Some True"
    by (simp add: db_bloqueo_manual_u2)
  have "isAccountBlocked env_tras_vencimiento ''u2'' db_bloqueo_manual =
          (Inr False,
           db_bloqueo_manual\<lparr> user_accounts := (user_accounts db_bloqueo_manual)(''u2'' \<mapsto>
              (cuenta_u2\<lparr> bloqueado := True, intentos_fallidos := 0,
                 UserAccount.fecha_actualizacion := 1700003600000 \<rparr>)
                \<lparr> bloqueado := False, intentos_fallidos := 0,
                  UserAccount.fecha_actualizacion := now env_tras_vencimiento \<rparr>) \<rparr>)"
    unfolding isAccountBlocked_def
    by (rule isAccountBlocked_expired [OF db_bloqueo_manual_u2, where t = 1700000600000])
       (simp_all add: cuenta_u2_def env_tras_vencimiento_def)
  then have c5: "fst (isAccountBlocked env_tras_vencimiento ''u2'' db_bloqueo_manual) = Inr False"
    and c6: "map_option bloqueado
       (user_accounts (snd (isAccountBlocked env_tras_vencimiento ''u2'' db_bloqueo_manual)) ''u2'')
       = Some False"
    by simp_all
  show ?thesis
    using c1 c2 c3 c4 c5 c6 by blast
qed

section \<open>Fraud scoring\<close>

lemma getDailyTransferCount_eq:
  "getDailyTransferCount e u d = (Inr (length (settled_today e u d)), d)"
  by (simp add: getDailyTransferCount_def bind_def getTransfersByUserIdAndDate_def Let_def
        ret_def settled_today_def)

lemma performFraudCheck_reads_only:
  "snd (performFraudCheck e body d) = d"
  by (simp add: performFraudCheck_def Let_def throw_def ret_def bind_def getUserAccount_eq
        getDailyTransferCount_eq split: option.splits)

lemma performFraudCheck_valid:
  assumes "FraudBody.usuario_id body = Some u" and "u \<noteq> []"
    and "FraudBody.monto_transferencia body = Some x" and "0 < x"
    and "FraudBody.cuenta_destino body = Some c" and "c \<noteq> []"
    and "user_accounts d u = Some a"
  shows "\<exists>json. fst (performFraudCheck e body d) = Inr json
          \<and> factores_riesgo json =
              (if (now e - fecha_registro a) div ms_per_day < 30 \<and> 5000 < x
               then [\<lparr> tipo = ''cuenta_nueva_monto_alto'', severity = ''media'' \<rparr>] else [])
              @ (if 10 < length (settled_today e u d)
                 then [\<lparr> tipo = ''transferencias_frecuentes'', severity = ''alta'' \<rparr>] else [])
              @ (if historial_mora a
                 then [\<lparr> tipo = ''historial_mora'', severity = ''alta'' \<rparr>] else [])
          \<and> requiere_verificacion_adicional json =
              (10 < length (settled_today e u d) \<or> historial_mora a)
          \<and> puede_proceder json = (\<not> requiere_verificacion_adicional json)"
  using assms
  by (simp add: performFraudCheck_def Let_def falsy_string_def falsy_number_def throw_def ret_def
        bind_def getUserAccount_eq getDailyTransferCount_eq)

text \<open>
  Claim C8. \<^verbatim>\<open>performFraudCheck\<close> returns the store it was given, whatever the
  request. For a request that passes validation, on an existing account, the risk factors
  are exactly: the medium one when the account is younger than 30 days and the amount is
  above 5000; a high one when more than 10 transfers of the user settled today; a high one
  when the account has a default history. \<^verbatim>\<open>requiere_verificacion_adicional\<close> holds if
  and only if one of the two high factors fired.
\<close>

theorem C8_fraud_check:
  "snd (performFraudCheck e body d) = d
   \<and> (FraudBody.usuario_id body = Some u \<and> u \<noteq> []
        \<and> FraudBody.monto_transferencia body = Some x \<and> 0 < x
        \<and> FraudBody.cuenta_destino body = Some c \<and> c \<noteq> []
        \<and> user_accounts d u = Some a \<longrightarrow>
      (\<exists>json. fst (performFraudCheck e body d) = Inr json
          \<and> factores_riesgo json =
              (if (now e - fecha_registro a) div ms_per_day < 30 \<and> 5000 < x
               then [\<lparr> tipo = ''cuenta_nueva_monto_alto'', severity = ''media'' \<rparr>] else [])
              @ (if 10 < length (settled_today e u d)
                 then [\<lparr> tipo = ''transferencias_frecuentes'', severity = ''alta'' \<rparr>] else [])
              @ (if historial_mora a
                 then [\<lparr> tipo = ''historial_mora'', severity = ''alta'' \<rparr>] else [])
          \<and> requiere_verificacion_adicional json =
              (10 < length (settled_today e u d) \<or> historial_mora a)
          \<and> puede_proceder json = (\<not> requiere_verificacion_adicional json)))"
  using performFraudCheck_reads_only [of e body d] performFraudCheck_valid [of body u x c d a e]
  by blast

theorem C8_fraud_witness:
  "snd (performFraudCheck env0 fraude_u1_6000 db0) = db0
   \<and> (\<exists>json. fst (performFraudCheck env0 fraude_u1_6000 db0) = Inr json
        \<and> factores_riesgo json = [\<lparr> tipo = ''cuenta_nueva_monto_alto'', severity = ''media'' \<rparr>]
        \<and> \<not> requiere_verificacion_adicional json
        \<and> puede_proceder json)"
proof -
  have b: "FraudBody.usuario_id fraude_u1_6000 = Some ''u1''" "''u1'' \<noteq> []"
    "FraudBody.monto_transferencia fraude_u1_6000 = Some 6000" "(0::rat) < 6000"
    "FraudBody.cuenta_destino fraude_u1_6000 = Some ''0170835104000003141816''"
    "''0170835104000003141816'' \<noteq> []"
    "user_accounts db0 ''u1'' = Some cuenta_u1"
    by (simp_all add: fraude_u1_6000_def db0_def)
  have age: "(now env0 - fecha_registro cuenta_u1) div ms_per_day = 10"
    by (simp add: env0_def cuenta_u1_def ms_per_day_def)
  have n: "length (settled_today env0 ''u1'' db0) = 1"
    by (simp add: settled_today_def db0_def transferencia_t1_def env0_def ms_per_day_def)
  have m: "\<not> historial_mora cuenta_u1"
    by (simp add: cuenta_u1_def)
  have "snd (performFraudCheck env0 fraude_u1_6000 db0) = db0
        \<and> (\<exists>json. fst (performFraudCheck env0 fraude_u1_6000 db0) = Inr json
             \<and> factores_riesgo json = [\<lparr> tipo = ''cuenta_nueva_monto_alto'', severity = ''media'' \<rparr>]
             \<and> \<not> requiere_verificacion_adicional json
             \<and> puede_proceder json = (\<not> requiere_verificacion_adicional json))"
    using C8_fraud_check [of env0 fraude_u1_6000 db0 "''u1''" 6000 "''0170835104000003141816''"
            cuenta_u1] b
    unfolding age n using m by simp
  then show ?thesis by auto
qed

section \<open>A transfer the balance does not cover\<close>

lemma simulateQuickCredit_30:
  "simulateQuickCredit e u p 30 =
     Inr \<lparr> CreditSimulation.tipo_credito = QUICK,
           monto_solicitado = p,
           plazo_dias = 30,
           cuotas_totales = 1,
           tasa_tea = 110,
           tasa_cft = 126,
           monto_total = of_int (round (unrounded_total p 110 30)),
           costo_financiero =
             fadd (of_int (round (fmul (fmul p (fdiv 110 100)) (fdiv 30 365))))
                  (of_int (round (fmul p (fdiv adminChargePercentage 100)))),
           plan_cuotas =
             [\<lparr> InstallmentPlan.nro_cuota = 1,
                importe = fsub (unrounded_total p 110 30)
                            (fmul (fdiv (unrounded_total p 110 30) 1) 0),
                fecha_vencimiento = addDays e (now e) 30 \<rparr>] \<rparr>"
  by (simp add: simulateQuickCredit_def quickCreditRates_def Let_def calculateCredit_def
        cft_values fl64_small_values plan_loop_upto plan_row_def unrounded_total_def)

lemma handleTransfer_offer:
  assumes "TransferBody.usuario_id body = Some u" and "u \<noteq> []"
    and "monto_destino body = Some x" and "0 < x"
    and "TransferBody.cuenta_destino body = Some c" and "c \<noteq> []"
    and "user_accounts d u = Some a" and "saldo_disponible a < x"
    and "simulateQuickCredit e u (fsub x (saldo_disponible a)) 30 = Inr sim"
  shows "handleTransfer e body d =
           (Inr \<lparr> TransferJson.exito = False,
                  tipo_resultado = ''saldo_insuficiente_oferta_credito'',
                  transaccion_id = None,
                  monto = None,
                  saldo_resultante = None,
                  fecha = None,
                  saldo_actual = Some (saldo_disponible a),
                  monto_faltante = Some (fsub x (saldo_disponible a)),
                  oferta_credito = Some sim \<rparr>, d)"
  using assms
  by (simp add: handleTransfer_def Let_def falsy_string_def falsy_number_def bind_def
        getBalance_eq ret_def)

text \<open>
  Claim C10. For a request to \<^verbatim>\<open>handleTransfer\<close> that passes validation, from an
  existing account whose balance is below the amount, the store is returned unchanged (no
  funds move and no transfer is created) and the answer is the non-success result of type
  \<^verbatim>\<open>saldo_insuficiente_oferta_credito\<close>. It carries the current balance, the
  shortfall \<^verbatim>\<open>monto_destino - currentBalance\<close> (the binary64 difference) and, as the
  offer, the simulation of a Quick credit of 30 days for exactly that shortfall: one
  installment, TEA 110, CFT 126, the total rounded from the unrounded total of the
  shortfall. The amount and the balance are taken below \<open>10^300\<close> in magnitude, where
  no operation of the calculator overflows.
\<close>

theorem C10_insufficient_balance_offers_credit:
  assumes "TransferBody.usuario_id body = Some u" and "u \<noteq> []"
    and "monto_destino body = Some x" and "0 < x"
    and "TransferBody.cuenta_destino body = Some c" and "c \<noteq> []"
    and "user_accounts d u = Some a" and "saldo_disponible a < x"
    and "x \<le> 10 ^ 300" and "- (10 ^ 300) \<le> saldo_disponible a"
  shows "handleTransfer e body d =
           (Inr \<lparr> TransferJson.exito = False,
                  tipo_resultado = ''saldo_insuficiente_oferta_credito'',
                  transaccion_id = None,
                  monto = None,
                  saldo_resultante = None,
                  fecha = None,
                  saldo_actual = Some (saldo_disponible a),
                  monto_faltante = Some (fsub x (saldo_disponible a)),
                  oferta_credito =
                    Some \<lparr> CreditSimulation.tipo_credito = QUICK,
                           monto_solicitado = fsub x (saldo_disponible a),
                           plazo_dias = 30,
                           cuotas_totales = 1,
                           tasa_tea = 110,
                           tasa_cft = 126,
                           monto_total =
                             of_int (round (unrounded_total (fsub x (saldo_disponible a)) 110 30)),
                           costo_financiero =
                             fadd (of_int (round (fmul (fmul (fsub x (saldo_disponible a))
                                                     (fdiv 110 100)) (fdiv 30 365))))
                                  (of_int (round (fmul (fsub x (saldo_disponible a))
                                                     (fdiv adminChargePercentage 100)))),
                           plan_cuotas =
                             [\<lparr> InstallmentPlan.nro_cuota = 1,
                                importe =
                                  fsub (unrounded_total (fsub x (saldo_disponible a)) 110 30)
                                    (fmul (fdiv (unrounded_total (fsub x (saldo_disponible a)) 110 30) 1) 0),
                                fecha_vencimiento = addDays e (now e) 30 \<rparr>] \<rparr> \<rparr>, d)
       \<and> oferta_credito (projr (fst (handleTransfer e body d))) =
           Some (projr (simulateQuickCredit e u (fsub x (saldo_disponible a)) 30))"
  using handleTransfer_offer [OF assms(1-8) simulateQuickCredit_30 [of e u "fsub x (saldo_disponible a)"]]
  by (simp add: simulateQuickCredit_30)

lemma offer_values_500:
  "fsub 600 100 = 500"
  "round (unrounded_total 500 110 30) = 555"
  "round (fmul (fmul 500 (fdiv 110 100)) (fdiv 30 365)) = 45"
  "round (fmul 500 (fdiv adminChargePercentage 100)) = 10"
  "fadd 45 10 = 55"
  "fsub (unrounded_total 500 110 30) (fmul (fdiv (unrounded_total 500 110 30) 1) 0)
     = 2441819521849933 / 4398046511104"
  by code_simp+

theorem C10_offer_witness:
  "handleTransfer env0 pedido_u2_600 db0 =
     (Inr \<lparr> TransferJson.exito = False,
            tipo_resultado = ''saldo_insuficiente_oferta_credito'',
            transaccion_id = None,
            monto = None,
            saldo_resultante = None,
            fecha = None,
            saldo_actual = Some 100,
            monto_faltante = Some 500,
            oferta_credito =
              Some \<lparr> CreditSimulation.tipo_credito = QUICK,
                     monto_solicitado = 500,
                     plazo_dias = 30,
                     cuotas_totales = 1,
                     tasa_tea = 110,
                     tasa_cft = 126,
                     monto_total = 555,
                     costo_financiero = 55,
                     plan_cuotas =
                       [\<lparr> InstallmentPlan.nro_cuota = 1,
                          importe = 2441819521849933 / 4398046511104,
                          fecha_vencimiento = 1702592000000 \<rparr>] \<rparr> \<rparr>, db0)"
proof -
  have b: "TransferBody.usuario_id pedido_u2_600 = Some ''u2''" "''u2'' \<noteq> []"
    "monto_destino pedido_u2_600 = Some 600" "(0::rat) < 600"
    "TransferBody.cuenta_destino pedido_u2_600 = Some ''u1''" "''u1'' \<noteq> []"
    "user_accounts db0 ''u2'' = Some cuenta_u2" "saldo_disponible cuenta_u2 < 600"
    "(600::rat) \<le> 10 ^ 300" "- (10 ^ 300) \<le> saldo_disponible cuenta_u2"
    by (simp_all add: pedido_u2_600_def db0_def cuenta_u2_def)
  have s: "saldo_disponible cuenta_u2 = 100"
    by (simp add: cuenta_u2_def)
  have t: "addDays env0 (now env0) 30 = 1702592000000"
    by (simp add: env0_def ms_per_day_def)
  show ?thesis
    using C10_insufficient_balance_offers_credit [OF b, of env0]
    unfolding s offer_values_500 t by (simp add: offer_values_500)
qed

section \<open>Transfer limits\<close>

lemma removeFunds_ok:
  "user_accounts d u = Some a \<Longrightarrow> 0 < x \<Longrightarrow> x \<le> saldo_disponible a \<Longrightarrow>
     removeFunds e u x d =
       (Inr (a\<lparr> saldo_disponible := saldo_disponible a - x,
               UserAccount.fecha_actualizacion := now e \<rparr>),
        d\<lparr> user_accounts := (user_accounts d)(u \<mapsto>
              a\<lparr> saldo_disponible := saldo_disponible a - x,
                 UserAccount.fecha_actualizacion := now e \<rparr>) \<rparr>)"
  by (simp add: removeFunds_def bind_def getUserAccount_eq Let_def updateBalance_def update_Some)

lemma addFunds_ok:
  "user_accounts d u = Some a \<Longrightarrow> 0 < x \<Longrightarrow>
     addFunds e u x d =
       (Inr (a\<lparr> saldo_disponible := saldo_disponible a + x,
               UserAccount.fecha_actualizacion := now e \<rparr>),
        d\<lparr> user_accounts := (user_accounts d)(u \<mapsto>
              a\<lparr> saldo_disponible := saldo_disponible a + x,
                 UserAccount.fecha_actualizacion := now e \<rparr>) \<rparr>)"
  by (simp add: addFunds_def bind_def getUserAccount_eq Let_def updateBalance_def update_Some)

lemma getDailyTransferTotal_eq:
  "getDailyTransferTotal e u d =
     (Inr (foldl (\<lambda>sum transfer. sum + Transfer.monto transfer) 0 (settled_today e u d)), d)"
  by (simp add: getDailyTransferTotal_def bind_def getTransfersByUserIdAndDate_def Let_def
        ret_def settled_today_def)

lemma checkLimitsPreview_reads_only:
  "snd (checkLimitsPreview e body d) = d"
  by (simp add: checkLimitsPreview_def Let_def throw_def ret_def bind_def getUserAccount_eq
        getDailyTransferTotal_eq split: option.splits)

lemma checkLimitsPreview_exceeded:
  assumes "LimitsBody.usuario_id body = Some u" and "u \<noteq> []"
    and "LimitsBody.monto_transferencia body = Some x" and "0 < x"
    and "user_accounts d u = Some a"
    and "used = foldl (\<lambda>sum transfer. sum + Transfer.monto transfer) 0 (settled_today e u d)"
    and "limite = (if UserAccount.kyc_completo a then 50000 else 10000)"
    and "max 0 (limite - used) < x"
  shows "\<exists>json. checkLimitsPreview e body d = (Inr json, d)
          \<and> \<not> LimitsJson.exito json
          \<and> \<not> puede_transferir json
          \<and> code json = Some ''LIMITE_EXCEDIDO''
          \<and> limite_actual (data json) = limite
          \<and> usado_hoy (data json) = used
          \<and> disponible (data json) = max 0 (limite - used)
          \<and> exceso (data json) = Some (x - max 0 (limite - used))"
  using assms
  by (simp add: checkLimitsPreview_def Let_def falsy_string_def falsy_number_def bind_def
        getUserAccount_eq getDailyTransferTotal_eq ret_def)

lemma settled_today_u1: "settled_today env0 ''u1'' db0 = [transferencia_t1]"
  by (simp add: settled_today_def db0_def transferencia_t1_def env0_def ms_per_day_def)

text \<open>
  Claim C4 at a concrete request. The account \<open>u1\<close> has no KYC (limit 10000), holds
  20000 and has a settled transfer of 8000 today, so 2000 remain. For an amount of 15000
  the preview \<^verbatim>\<open>checkLimitsPreview\<close> answers \<^verbatim>\<open>LIMITE_EXCEDIDO\<close> with the limit,
  the amount used and the excess, and leaves the store alone; the execution endpoint
  \<^verbatim>\<open>handleTransfer\<close> makes no limit check and moves the 15000.
\<close>

theorem C4_transfer_over_limit_is_executed:
  "map_sum id code (fst (checkLimitsPreview env0 limites_u1_15000 db0)) = Inr (Some ''LIMITE_EXCEDIDO'')
   \<and> map_sum id (limite_actual \<circ> data) (fst (checkLimitsPreview env0 limites_u1_15000 db0)) = Inr 10000
   \<and> map_sum id (usado_hoy \<circ> data) (fst (checkLimitsPreview env0 limites_u1_15000 db0)) = Inr 8000
   \<and> map_sum id (exceso \<circ> data) (fst (checkLimitsPreview env0 limites_u1_15000 db0)) = Inr (Some 13000)
   \<and> snd (checkLimitsPreview env0 limites_u1_15000 db0) = db0
   \<and> map_sum id TransferJson.exito (fst (handleTransfer env0 pedido_u1_15000 db0)) = Inr True
   \<and> map_sum id tipo_resultado (fst (handleTransfer env0 pedido_u1_15000 db0))
        = Inr ''transferencia_directa''
   \<and> saldo_of db0 ''u1'' = Some 20000
   \<and> saldo_of db0 ''u2'' = Some 100
   \<and> saldo_of (snd (handleTransfer env0 pedido_u1_15000 db0)) ''u1'' = Some 5000
   \<and> saldo_of (snd (handleTransfer env0 pedido_u1_15000 db0)) ''u2'' = Some 15100"
proof -
  have a1: "user_accounts db0 ''u1'' = Some cuenta_u1"
    by (simp add: db0_def)
  have lp: "\<exists>json. checkLimitsPreview env0 limites_u1_15000 db0 = (Inr json, db0)
          \<and> \<not> LimitsJson.exito json
          \<and> \<not> puede_transferir json
          \<and> code json = Some ''LIMITE_EXCEDIDO''
          \<and> limite_actual (data json) = 10000
          \<and> usado_hoy (data json) = 8000
          \<and> disponible (data json) = max 0 (10000 - 8000)
          \<and> exceso (data json) = Some (15000 - max 0 (10000 - 8000))"
    by (rule checkLimitsPreview_exceeded [where u = "''u1''" and a = cuenta_u1])
       (simp_all add: limites_u1_15000_def a1 settled_today_u1 transferencia_t1_def cuenta_u1_def)
  have bal: "saldo_disponible cuenta_u1 = 20000"
    by (simp add: cuenta_u1_def)
  have r: "removeFunds env0 ''u1'' 15000 db0 =
             (Inr (cuenta_u1\<lparr> saldo_disponible := 5000,
                     UserAccount.fecha_actualizacion := now env0 \<rparr>),
              db0\<lparr> user_accounts := (user_accounts db0)(''u1'' \<mapsto>
                     cuenta_u1\<lparr> saldo_disponible := 5000,
                        UserAccount.fecha_actualizacion := now env0 \<rparr>) \<rparr>)"
    using removeFunds_ok [OF a1, of 15000 env0] by (simp add: bal)
  let ?d1 = "db0\<lparr> user_accounts := (user_accounts db0)(''u1'' \<mapsto>
                     cuenta_u1\<lparr> saldo_disponible := 5000,
                        UserAccount.fecha_actualizacion := now env0 \<rparr>) \<rparr>"
  have a2: "user_accounts ?d1 ''u2'' = Some cuenta_u2"
    by (simp add: db0_def)
  have bal2: "saldo_disponible cuenta_u2 = 100"
    by (simp add: cuenta_u2_def)
  have ad: "addFunds env0 ''u2'' 15000 ?d1 =
             (Inr (cuenta_u2\<lparr> saldo_disponible := 15100,
                     UserAccount.fecha_actualizacion := now env0 \<rparr>),
              ?d1\<lparr> user_accounts := (user_accounts ?d1)(''u2'' \<mapsto>
                     cuenta_u2\<lparr> saldo_disponible := 15100,
                        UserAccount.fecha_actualizacion := now env0 \<rparr>) \<rparr>)"
    using addFunds_ok [OF a2, of 15000 env0] by (simp add: bal2)
  have t: "transferFunds env0 ''u1'' ''u2'' 15000 db0 =
             (Inr \<lparr> BankingAPIResponse.exito = True, transaccion_id = Some (uuidv4 env0 0),
                    monto = 15000, fecha = now env0, saldo_resultante = 5000,
                    razon_fallo = None \<rparr>,
              ?d1\<lparr> user_accounts := (user_accounts ?d1)(''u2'' \<mapsto>
                     cuenta_u2\<lparr> saldo_disponible := 15100,
                        UserAccount.fecha_actualizacion := now env0 \<rparr>) \<rparr>)"
    by (simp add: transferFunds_def transferFunds_try_def bind_def getBalance_eq a1 r ad ret_def
          bal)
  have h: "handleTransfer env0 pedido_u1_15000 db0 =
             (Inr \<lparr> TransferJson.exito = True,
                    tipo_resultado = ''transferencia_directa'',
                    transaccion_id = Some (uuidv4 env0 0),
                    monto = Some 15000,
                    saldo_resultante = Some 5000,
                    fecha = Some (now env0),
                    saldo_actual = None,
                    monto_faltante = None,
                    oferta_credito = None \<rparr>,
              ?d1\<lparr> user_accounts := (user_accounts ?d1)(''u2'' \<mapsto>
                     cuenta_u2\<lparr> saldo_disponible := 15100,
                        UserAccount.fecha_actualizacion := now env0 \<rparr>) \<rparr>)"
    by (simp add: handleTransfer_def pedido_u1_15000_def falsy_string_def falsy_number_def
          Let_def bind_def getBalance_eq a1 t ret_def bal)
  have s0: "saldo_of db0 ''u1'' = Some 20000" "saldo_of db0 ''u2'' = Some 100"
    by (simp_all add: saldo_of_def db0_def cuenta_u1_def cuenta_u2_def)
  show ?thesis
    using lp s0 unfolding h by (auto simp: saldo_of_def)
qed

section \<open>Credit terms\<close>

lemma simulateQuickCredit_invalid_term:
  "termDays \<notin> {30, 60, 90} \<Longrightarrow>
     simulateQuickCredit e u p termDays =
       Inl (ValidationError ''Invalid term for quick credit. Allowed: 30, 60, 90 days'')"
  by (simp add: simulateQuickCredit_def quickCreditRates_def)

lemma createQuickCredit_invalid_term:
  "CreditRequest.tipo_credito request = QUICK \<Longrightarrow>
   CreditRequest.plazo_dias request \<notin> {30, 60, 90} \<Longrightarrow>
     createQuickCredit e request d =
       (Inl (ValidationError ''Invalid term for quick credit. Allowed: 30, 60, 90 days''), d)"
  by (simp add: createQuickCredit_def simulateQuickCredit_invalid_term throw_def)

lemma simulateNormalCredit_invalid_term:
  "termMonths \<notin> {3, 6, 12} \<Longrightarrow>
     simulateNormalCredit e u p termMonths =
       Inl (ValidationError ''Invalid term for normal credit. Allowed: 3, 6, 9, 12 months'')"
  by (simp add: simulateNormalCredit_def normalCreditRates_def)

lemma createNormalCredit_invalid_term:
  assumes "CreditRequest.tipo_credito request = NORMAL"
    and "\<lfloor>fdiv (CreditRequest.plazo_dias request) 30\<rfloor> \<notin> {3, 6, 12}"
  shows "createNormalCredit e request d =
       (Inl (ValidationError ''Invalid term for normal credit. Allowed: 3, 6, 9, 12 months''), d)"
proof -
  have "(of_int \<lfloor>fdiv (CreditRequest.plazo_dias request) 30\<rfloor> :: rat) \<notin> {3, 6, 12}"
    using assms(2) by (auto simp: of_int_eq_iff [symmetric] simp del: of_int_eq_iff)
  then show ?thesis
    using assms(1)
    by (simp add: createNormalCredit_def Let_def throw_def simulateNormalCredit_invalid_term)
qed

lemma nine_months: "\<lfloor>fdiv 270 30\<rfloor> = 9"
  by code_simp

text \<open>
  Claim C9 at the term of 9 months. \<^verbatim>\<open>validateTerm\<close> accepts 9 months for a Normal
  credit, and the check of \<^verbatim>\<open>createNormalCredit\<close> lets \<open>floor(270 / 30) = 9\<close>
  through; the rate table has no entry for 9, so \<^verbatim>\<open>simulateNormalCredit\<close> rejects the
  term with the error whose own text lists 9 as allowed, and the creation fails with it
  (no record is written).
\<close>

theorem C9_normal_credit_of_9_months_is_rejected:
  "es_elegible (validateTerm 9 NORMAL)
   \<and> simulateNormalCredit env0 ''u1'' 1000 9 =
       Inl (ValidationError ''Invalid term for normal credit. Allowed: 3, 6, 9, 12 months'')
   \<and> createNormalCredit env0 pedido_normal_9_meses db0 =
       (Inl (ValidationError ''Invalid term for normal credit. Allowed: 3, 6, 9, 12 months''), db0)"
proof -
  have f: "\<lfloor>fdiv (CreditRequest.plazo_dias pedido_normal_9_meses) 30\<rfloor> = 9"
    by (simp add: pedido_normal_9_meses_def nine_months)
  have "createNormalCredit env0 pedido_normal_9_meses db0 =
       (Inl (ValidationError ''Invalid term for normal credit. Allowed: 3, 6, 9, 12 months''), db0)"
    by (rule createNormalCredit_invalid_term) (simp_all add: f, simp add: pedido_normal_9_meses_def)
  then show ?thesis
    by (simp add: validateTerm_def simulateNormalCredit_invalid_term)
qed

end
